theory Spec2Isabelle
  imports Complex_Main
begin

section \<open>Strings\<close>

text \<open>
  A \<^typ>\<open>string\<close> is a sequence of UTF-16 code units below 256, one \<^typ>\<open>char\<close> each.
  \<open>isSpace\<close> is the class \<^verbatim>\<open>\s\<close> of the regular expressions, which is also what
  \<^verbatim>\<open>String.prototype.trim\<close> strips (white space and line terminators), on that range.
\<close>

definition isSpace :: "char \<Rightarrow> bool" where
  "isSpace c \<longleftrightarrow> c = CHR 0x20 \<or> c = CHR 0x09 \<or> c = CHR 0x0A \<or> c = CHR 0x0B \<or> c = CHR 0x0C
     \<or> c = CHR 0x0D \<or> c = CHR 0xA0"

definition trim :: "string \<Rightarrow> string" where
  "trim s = rev (dropWhile isSpace (rev (dropWhile isSpace s)))"

definition startsWith :: "string \<Rightarrow> string \<Rightarrow> bool" where
  "startsWith s p \<longleftrightarrow> take (length p) s = p"

fun splitOn :: "char \<Rightarrow> string \<Rightarrow> string list" where
  "splitOn sep [] = [[]]"
| "splitOn sep (c # cs) =
     (if c = sep then [] # splitOn sep cs
      else (case splitOn sep cs of p # ps \<Rightarrow> (c # p) # ps | [] \<Rightarrow> [[c]]))"

definition toLowerChar :: "char \<Rightarrow> char" where
  "toLowerChar c =
     (let n = (of_char c :: nat)
      in if (65 \<le> n \<and> n \<le> 90) \<or> (192 \<le> n \<and> n \<le> 222 \<and> n \<noteq> 215) then char_of (n + 32) else c)"

definition toLowerCase :: "string \<Rightarrow> string" where
  "toLowerCase s = map toLowerChar s"

definition dquote :: char where
  "dquote = CHR 0x22"

section \<open>JavaScript values\<close>

text \<open>
  The values a property bag holds: what the YAML front matter and the file metadata can
  contain. Numbers are the finite ones, as exact rationals; NaN, the infinities, negative
  zero and the rounding of binary64 are outside the model.
\<close>

datatype jsval =
    JUndefined
  | JNull
  | JBool bool
  | JNum rat
  | JStr string
  | JArr "jsval list"
  | JObj "(string \<times> jsval) list"

text \<open>A thrown exception, with its \<^verbatim>\<open>message\<close>.\<close>

datatype js_error = JsError string

subsection \<open>Numbers and their string form\<close>

definition isDigit :: "char \<Rightarrow> bool" where
  "isDigit c \<longleftrightarrow> c \<in> set ''0123456789''"

definition digitChar :: "nat \<Rightarrow> char" where
  "digitChar d = ''0123456789'' ! (d mod 10)"

definition digitValue :: "char \<Rightarrow> nat" where
  "digitValue c = of_char c - 48"

definition digitsValue :: "string \<Rightarrow> nat" where
  "digitsValue ds = foldl (\<lambda>a c. 10 * a + digitValue c) 0 ds"

fun natDigits :: "nat \<Rightarrow> string" where
  "natDigits n = (if n < 10 then [digitChar n] else natDigits (n div 10) @ [digitChar (n mod 10)])"

declare natDigits.simps [simp del]

text \<open>
  \<open>scaleToInt x f\<close> multiplies a positive number by ten until it is an integer and counts
  the steps: every binary64 value is a finite decimal, of fewer than 400 fraction digits.
\<close>

function scaleToInt :: "rat \<Rightarrow> nat \<Rightarrow> nat \<times> nat" where
  "scaleToInt x f =
     (if of_int \<lfloor>x\<rfloor> = x \<or> 400 \<le> f then (nat \<lfloor>x\<rfloor>, f) else scaleToInt (x * 10) (Suc f))"
  by pat_completeness auto
termination
  by (relation "measure (\<lambda>(x, f). 400 - f)") auto

declare scaleToInt.simps [simp del]

text \<open>
  \<^verbatim>\<open>Number::toString\<close> of ECMAScript, on the digits \<open>s\<close> and the exponent \<open>n\<close> of the
  value \<open>0.s \<times> 10\<^sup>n\<close>: plain notation when \<open>-6 < n \<le> 21\<close>, exponent notation otherwise.
\<close>

definition formatDigits :: "string \<Rightarrow> int \<Rightarrow> string" where
  "formatDigits s n =
     (let k = int (length s) in
      if k \<le> n \<and> n \<le> 21 then s @ replicate (nat (n - k)) (CHR ''0'')
      else if 0 < n \<and> n \<le> 21 then take (nat n) s @ ''.'' @ drop (nat n) s
      else if - 6 < n \<and> n \<le> 0 then ''0.'' @ replicate (nat (- n)) (CHR ''0'') @ s
      else (let e = n - 1;
                es = (if e < 0 then ''-'' else ''+'') @ natDigits (nat \<bar>e\<bar>)
            in if k = 1 then s @ ''e'' @ es
               else take 1 s @ ''.'' @ drop 1 s @ ''e'' @ es))"

definition positiveToString :: "rat \<Rightarrow> string" where
  "positiveToString x =
     (let (m, f) = scaleToInt x 0;
          ds = natDigits m;
          tz = length (takeWhile (\<lambda>c. c = CHR ''0'') (rev ds))
      in formatDigits (take (length ds - tz) ds) (int (length ds) - int f))"

definition numToString :: "rat \<Rightarrow> string" where
  "numToString x =
     (if x = 0 then ''0''
      else if x < 0 then ''-'' @ positiveToString (- x)
      else positiveToString x)"

text \<open>
  \<^verbatim>\<open>parseFloat\<close>: the value of the longest prefix that is a decimal literal, after leading
  white space; \<open>None\<close> is NaN. The literal \<^verbatim>\<open>Infinity\<close> is outside the model.
\<close>

definition takeSign :: "string \<Rightarrow> bool \<times> string" where
  "takeSign s =
     (case s of
        c # r \<Rightarrow> if c = CHR ''-'' then (True, r) else if c = CHR ''+'' then (False, r) else (False, s)
      | [] \<Rightarrow> (False, s))"

definition scale10 :: "rat \<Rightarrow> int \<Rightarrow> rat" where
  "scale10 m e = (if 0 \<le> e then m * 10 ^ nat e else m / 10 ^ nat (- e))"

definition parseFloat :: "string \<Rightarrow> rat option" where
  "parseFloat str =
     (let (neg, t) = takeSign (dropWhile isSpace str);
          ip = takeWhile isDigit t;
          r1 = dropWhile isDigit t;
          (fp, r2) = (case r1 of
                        c # r \<Rightarrow> if c = CHR ''.'' then (takeWhile isDigit r, dropWhile isDigit r)
                                 else ([], r1)
                      | [] \<Rightarrow> ([], r1));
          ex = (case r2 of
                  c # r \<Rightarrow>
                    if c = CHR ''e'' \<or> c = CHR ''E''
                    then (let (eneg, r3) = takeSign r; ed = takeWhile isDigit r3
                          in if ed = [] then 0
                             else if eneg then - int (digitsValue ed) else int (digitsValue ed))
                    else 0
                | [] \<Rightarrow> 0)
      in if ip = [] \<and> fp = [] then None
         else (let m = scale10 (of_nat (digitsValue (ip @ fp))) (ex - int (length fp))
               in Some (if neg then - m else m)))"

text \<open>\<^verbatim>\<open>parseInt(input, 10)\<close>; \<open>None\<close> is NaN.\<close>

definition parseInt10 :: "string \<Rightarrow> int option" where
  "parseInt10 str =
     (let (neg, t) = takeSign (dropWhile isSpace str);
          ds = takeWhile isDigit t
      in if ds = [] then None
         else Some (if neg then - int (digitsValue ds) else int (digitsValue ds)))"

subsection \<open>String conversion\<close>

text \<open>
  \<^verbatim>\<open>String(v)\<close>. An array is its elements joined by commas, an undefined or null element
  being the empty string; a plain object is \<^verbatim>\<open>[object Object]\<close>.
\<close>

definition joinWith :: "string \<Rightarrow> string list \<Rightarrow> string" where
  "joinWith sep xs = (case xs of [] \<Rightarrow> [] | x # r \<Rightarrow> foldl (\<lambda>acc y. acc @ sep @ y) x r)"

fun jsString :: "jsval \<Rightarrow> string" where
  "jsString JUndefined = ''undefined''"
| "jsString JNull = ''null''"
| "jsString (JBool b) = (if b then ''true'' else ''false'')"
| "jsString (JNum x) = numToString x"
| "jsString (JStr s) = s"
| "jsString (JArr xs) =
     joinWith '','' (map (\<lambda>x. if x = JUndefined \<or> x = JNull then [] else jsString x) xs)"
| "jsString (JObj kvs) = ''[object Object]''"

subsection \<open>Member access\<close>

text \<open>
  \<^verbatim>\<open>value[part]\<close>: a TypeError on undefined and null; otherwise the own data property of
  that name (an element or the length of an array or a string, a key of an object), and
  undefined when there is none. The methods inherited from the built-in prototypes are
  functions, not data, and are outside the model.
\<close>

definition arrayIndex :: "string \<Rightarrow> nat option" where
  "arrayIndex part =
     (if part \<noteq> [] \<and> list_all isDigit part \<and> natDigits (digitsValue part) = part
      then Some (digitsValue part) else None)"

definition getMember :: "jsval \<Rightarrow> string \<Rightarrow> js_error + jsval" where
  "getMember v part =
     (case v of
        JUndefined \<Rightarrow> Inl (JsError ''Cannot read properties of undefined'')
      | JNull \<Rightarrow> Inl (JsError ''Cannot read properties of null'')
      | JBool b \<Rightarrow> Inr JUndefined
      | JNum x \<Rightarrow> Inr JUndefined
      | JStr s \<Rightarrow>
          (if part = ''length'' then Inr (JNum (of_nat (length s)))
           else (case arrayIndex part of
                   Some i \<Rightarrow> if i < length s then Inr (JStr [s ! i]) else Inr JUndefined
                 | None \<Rightarrow> Inr JUndefined))
      | JArr xs \<Rightarrow>
          (if part = ''length'' then Inr (JNum (of_nat (length xs)))
           else (case arrayIndex part of
                   Some i \<Rightarrow> if i < length xs then Inr (xs ! i) else Inr JUndefined
                 | None \<Rightarrow> Inr JUndefined))
      | JObj kvs \<Rightarrow> (case map_of kvs part of Some x \<Rightarrow> Inr x | None \<Rightarrow> Inr JUndefined))"

section \<open>types.ts\<close>

datatype sort_order = Asc | Desc

record sort_spec =
  sortBy :: string
  sortOrder :: sort_order

text \<open>
  The configuration of a query block, as far as the engine and the drop handler read it.
  An optional text that is absent is \<open>None\<close>; an empty text is falsy as well.
\<close>

record hermine_config =
  source :: string
  xAxis :: string
  yAxis :: "string option"
  xValues :: "string list option"
  yValues :: "string list option"
  sortSpec :: "sort_spec option"
  whereExpr :: "string option"
  filterExpr :: "string option"
  xReadonly :: bool
  yReadonly :: bool
  xTransform :: "string option"
  yTransform :: "string option"

definition truthyText :: "string option \<Rightarrow> bool" where
  "truthyText t \<longleftrightarrow> (case t of None \<Rightarrow> False | Some s \<Rightarrow> s \<noteq> [])"

text \<open>The text of an optional entry, where the code reads it after that test.\<close>

definition configText :: "string option \<Rightarrow> string" where
  "configText t = (case t of None \<Rightarrow> [] | Some s \<Rightarrow> s)"

text \<open>
  The key of \<^verbatim>\<open>updates[key]\<close>: a key that is undefined names the property \<^verbatim>\<open>undefined\<close>.
  Under the test that the entry is truthy it is the text of the entry.
\<close>

definition propertyKey :: "string option \<Rightarrow> string" where
  "propertyKey k = (case k of None \<Rightarrow> ''undefined'' | Some s \<Rightarrow> s)"

section \<open>value-transform.ts\<close>

type_synonym transformFn = "jsval \<Rightarrow> js_error + jsval"

text \<open>
  What \<^verbatim>\<open>new Function(body)()\<close> gives when it does not throw: a function, or a value
  that is not one. The JavaScript engine that evaluates the user's text is a parameter
  \<open>evalJs\<close>, from the body text to the thrown error or the value.
\<close>

datatype js_evaluated = Callable transformFn | NotCallable

type_synonym js_eval = "string \<Rightarrow> js_error + js_evaluated"

definition compileTransform :: "js_eval \<Rightarrow> string \<Rightarrow> transformFn option" where
  "compileTransform evalJs expr =
     (let trimmed = trim expr in
      if \<not> startsWith trimmed ''('' then None
      else (case evalJs ([dquote] @ ''use strict'' @ [dquote] @ ''; return ('' @ trimmed @ '');'') of
              Inl e \<Rightarrow> None
            | Inr NotCallable \<Rightarrow> None
            | Inr (Callable fn) \<Rightarrow> Some fn))"

definition applyTransform :: "jsval \<Rightarrow> transformFn option \<Rightarrow> jsval" where
  "applyTransform rawValue transformFn =
     (case transformFn of
        None \<Rightarrow> rawValue
      | Some fn \<Rightarrow> (case fn rawValue of Inr v \<Rightarrow> v | Inl e \<Rightarrow> rawValue))"

text \<open>The reverse map: the raw values seen under each label, in the order of first sight.\<close>

type_synonym reverse_map = "(string \<times> jsval list) list"

definition reverseMapAdd :: "transformFn \<Rightarrow> reverse_map \<Rightarrow> jsval \<Rightarrow> reverse_map" where
  "reverseMapAdd fn m raw =
     (let transformed = jsString (applyTransform raw (Some fn));
          m1 = (if map_of m transformed = None then m @ [(transformed, [])] else m)
      in map (\<lambda>(k, arr). if k = transformed \<and> raw \<notin> set arr then (k, arr @ [raw]) else (k, arr)) m1)"

definition buildReverseMap :: "jsval list \<Rightarrow> transformFn \<Rightarrow> reverse_map" where
  "buildReverseMap allRawValues fn = foldl (reverseMapAdd fn) [] allRawValues"

section \<open>parser.ts\<close>

subsection \<open>The exact keyword\<close>

definition isWordChar :: "char \<Rightarrow> bool" where
  "isWordChar c \<longleftrightarrow>
     c \<in> set ''abcdefghijklmnopqrstuvwxyzABCDEFGHIJKLMNOPQRSTUVWXYZ0123456789_''"

text \<open>The keyword, in either case, followed by a word boundary.\<close>

definition keywordAt :: "string \<Rightarrow> string \<Rightarrow> bool" where
  "keywordAt kw s \<longleftrightarrow>
     toLowerCase (take (length kw) s) = kw
     \<and> (case drop (length kw) s of [] \<Rightarrow> True | d # r \<Rightarrow> \<not> isWordChar d)"

text \<open>
  \<^verbatim>\<open>/\bexakt\b/i.test(value)\<close>: the keyword somewhere after a word boundary; \<open>prev\<close> is the
  character before the position.
\<close>

fun hasKeyword :: "string \<Rightarrow> char option \<Rightarrow> string \<Rightarrow> bool" where
  "hasKeyword kw prev [] = False"
| "hasKeyword kw prev (c # cs) =
     (((case prev of None \<Rightarrow> True | Some b \<Rightarrow> \<not> isWordChar b) \<and> keywordAt kw (c # cs))
      \<or> hasKeyword kw (Some c) cs)"

text \<open>
  \<^verbatim>\<open>value.replace(/,?\s*exakt\b/i, "")\<close>: the leftmost match is removed. \<open>keywordMatchAt\<close>
  is the match at one position, and returns the text after it.
\<close>

definition keywordMatchAt :: "string \<Rightarrow> string \<Rightarrow> string option" where
  "keywordMatchAt kw s =
     (let s1 = (case s of [] \<Rightarrow> s | c # r \<Rightarrow> if c = CHR '','' then r else s);
          s2 = dropWhile isSpace s1
      in if keywordAt kw s2 then Some (drop (length kw) s2) else None)"

fun removeKeyword :: "string \<Rightarrow> string \<Rightarrow> string" where
  "removeKeyword kw [] = []"
| "removeKeyword kw (c # cs) =
     (case keywordMatchAt kw (c # cs) of
        Some rest \<Rightarrow> rest
      | None \<Rightarrow> c # removeKeyword kw cs)"

subsection \<open>The range expression\<close>

definition expect :: "char \<Rightarrow> string \<Rightarrow> string option" where
  "expect c s = (case s of [] \<Rightarrow> None | x # r \<Rightarrow> if x = c then Some r else None)"

text \<open>
  \<^verbatim>\<open>(-?\d+(?:\.\d+)?)\<close>, or without the sign: the text of the number and the rest.
\<close>

definition takeNumber :: "bool \<Rightarrow> string \<Rightarrow> (string \<times> string) option" where
  "takeNumber signed s =
     (let (sg, s1) = (case s of
                        [] \<Rightarrow> ([], s)
                      | c # r \<Rightarrow> if signed \<and> c = CHR ''-'' then (''-'', r) else ([], s));
          ip = takeWhile isDigit s1;
          r1 = dropWhile isDigit s1
      in if ip = [] then None
         else (case r1 of
                 [] \<Rightarrow> Some (sg @ ip, r1)
               | c # r2 \<Rightarrow>
                   if c = CHR ''.'' \<and> takeWhile isDigit r2 \<noteq> []
                   then Some (sg @ ip @ ''.'' @ takeWhile isDigit r2, dropWhile isDigit r2)
                   else Some (sg @ ip, r1)))"

text \<open>\<^verbatim>\<open>(?:,\s*[Ss]tep\s+(\d+(?:\.\d+)?))\<close> after the comma: the text of the step and the rest.\<close>

definition takeStep :: "string \<Rightarrow> (string \<times> string) option" where
  "takeStep s =
     (let s1 = dropWhile isSpace s in
      if (take 4 s1 = ''Step'' \<or> take 4 s1 = ''step'') \<and> takeWhile isSpace (drop 4 s1) \<noteq> []
      then takeNumber False (dropWhile isSpace (drop 4 s1))
      else None)"

text \<open>
  The range expression, anchored at both ends:
  \<^verbatim>\<open>^\[\s*(-?\d+(?:\.\d+)?)\s*\.\.\s*(-?\d+(?:\.\d+)?)\s*(?:,\s*[Ss]tep\s+(\d+(?:\.\d+)?))?\s*\]$\<close>.
  It returns the texts of the three groups, the third being optional.
\<close>

definition rangeMatch :: "string \<Rightarrow> (string \<times> string \<times> string option) option" where
  "rangeMatch s =
     Option.bind (expect (CHR ''['') s) (\<lambda>s1.
     Option.bind (takeNumber True (dropWhile isSpace s1)) (\<lambda>(fromText, s2).
     Option.bind (expect (CHR ''.'') (dropWhile isSpace s2)) (\<lambda>s3.
     Option.bind (expect (CHR ''.'') s3) (\<lambda>s4.
     Option.bind (takeNumber True (dropWhile isSpace s4)) (\<lambda>(toText, s5).
       (case dropWhile isSpace s5 of
          [] \<Rightarrow> None
        | c # r \<Rightarrow>
            if c = CHR '','' then
              Option.bind (takeStep r) (\<lambda>(stepText, s6).
                if dropWhile isSpace s6 = '']'' then Some (fromText, toText, Some stepText) else None)
            else if c # r = '']'' then Some (fromText, toText, None)
            else None))))))"

subsection \<open>The values of a range\<close>

text \<open>\<^verbatim>\<open>Math.round(v * 1e9) / 1e9\<close>; \<^verbatim>\<open>Math.round\<close> rounds a half upwards.\<close>

definition roundNine :: "rat \<Rightarrow> rat" where
  "roundNine v = of_int \<lfloor>v * 10 ^ 9 + 1 / 2\<rfloor> / 10 ^ 9"

text \<open>
  The two loops. Both are entered with a positive step only, after the test of the step;
  the condition on the step is part of the functions so that they are total.
\<close>

function ascending :: "rat \<Rightarrow> rat \<Rightarrow> rat \<Rightarrow> string list" where
  "ascending v to step =
     (if 0 < step \<and> v \<le> to + step * (1 / 10 ^ 9)
      then numToString (roundNine v) # ascending (v + step) to step
      else [])"
  by pat_completeness auto
termination
proof (relation "measure (\<lambda>(v, to, step). nat (\<lfloor>(to + step * (1 / 10 ^ 9) - v) / step\<rfloor> + 1))")
  show "wf (measure (\<lambda>(v, to, step). nat (\<lfloor>(to + step * (1 / 10 ^ 9) - v) / step\<rfloor> + 1)))"
    by simp
next
  fix v to step :: rat
  assume a: "0 < step \<and> v \<le> to + step * (1 / 10 ^ 9)"
  define b where "b = to + step * (1 / 10 ^ 9)"
  have q: "(b - (v + step)) / step = (b - v) / step - 1"
    using a by (simp add: field_simps)
  have "0 \<le> (b - v) / step" using a by (simp add: b_def)
  then have "0 \<le> \<lfloor>(b - v) / step\<rfloor>" by simp
  then have "nat (\<lfloor>(b - (v + step)) / step\<rfloor> + 1) < nat (\<lfloor>(b - v) / step\<rfloor> + 1)"
    unfolding q by simp
  then show "((v + step, to, step), (v, to, step))
      \<in> measure (\<lambda>(v, to, step). nat (\<lfloor>(to + step * (1 / 10 ^ 9) - v) / step\<rfloor> + 1))"
    by (simp add: b_def)
qed

declare ascending.simps [simp del]

function descending :: "rat \<Rightarrow> rat \<Rightarrow> rat \<Rightarrow> string list" where
  "descending v to step =
     (if 0 < step \<and> to - step * (1 / 10 ^ 9) \<le> v
      then numToString (roundNine v) # descending (v - step) to step
      else [])"
  by pat_completeness auto
termination
proof (relation "measure (\<lambda>(v, to, step). nat (\<lfloor>(v - (to - step * (1 / 10 ^ 9))) / step\<rfloor> + 1))")
  show "wf (measure (\<lambda>(v, to, step). nat (\<lfloor>(v - (to - step * (1 / 10 ^ 9))) / step\<rfloor> + 1)))"
    by simp
next
  fix v to step :: rat
  assume a: "0 < step \<and> to - step * (1 / 10 ^ 9) \<le> v"
  define b where "b = to - step * (1 / 10 ^ 9)"
  have q: "(v - step - b) / step = (v - b) / step - 1"
    using a by (simp add: field_simps)
  have "0 \<le> (v - b) / step" using a by (simp add: b_def)
  then have "0 \<le> \<lfloor>(v - b) / step\<rfloor>" by simp
  then have "nat (\<lfloor>(v - step - b) / step\<rfloor> + 1) < nat (\<lfloor>(v - b) / step\<rfloor> + 1)"
    unfolding q by simp
  then show "((v - step, to, step), (v, to, step))
      \<in> measure (\<lambda>(v, to, step). nat (\<lfloor>(v - (to - step * (1 / 10 ^ 9))) / step\<rfloor> + 1))"
    by (simp add: b_def)
qed

declare descending.simps [simp del]

text \<open>\<^verbatim>\<open>String\<close> of the result of \<^verbatim>\<open>parseFloat\<close>, NaN included.\<close>

definition numberText :: "rat option \<Rightarrow> string" where
  "numberText x = (case x of None \<Rightarrow> ''NaN'' | Some v \<Rightarrow> numToString v)"

record axis_values =
  valueList :: "string list"
  exact :: bool

text \<open>The first step of \<^verbatim>\<open>parseAxisValues\<close>: the flag, and the text without the keyword.\<close>

definition stripExact :: "string \<Rightarrow> string \<times> bool" where
  "stripExact value0 =
     (if hasKeyword ''exakt'' None value0 \<or> hasKeyword ''exact'' None value0
      then (trim (removeKeyword ''exact'' (removeKeyword ''exakt'' value0)), True)
      else (value0, False))"

definition parseAxisValues :: "string \<Rightarrow> axis_values" where
  "parseAxisValues value0 =
     (let (val, exact) = stripExact value0
      in case rangeMatch val of
           Some (fromText, toText, stepText) \<Rightarrow>
             (let from = parseFloat fromText;
                  to = parseFloat toText;
                  step = (case stepText of None \<Rightarrow> Some 1 | Some t \<Rightarrow> parseFloat t)
              in case step of
                   None \<Rightarrow> \<lparr>valueList = [], exact = exact\<rparr>
                 | Some st \<Rightarrow>
                     if st \<le> 0 then \<lparr>valueList = [numberText from], exact = exact\<rparr>
                     else (case (from, to) of
                             (Some a, Some b) \<Rightarrow>
                               if a \<le> b then \<lparr>valueList = ascending a b st, exact = exact\<rparr>
                               else \<lparr>valueList = descending a b st, exact = exact\<rparr>
                           | _ \<Rightarrow> \<lparr>valueList = [], exact = exact\<rparr>))
         | None \<Rightarrow>
             \<lparr>valueList = filter (\<lambda>s. s \<noteq> []) (map trim (splitOn (CHR '','') val)), exact = exact\<rparr>)"

section \<open>query-engine.ts\<close>

subsection \<open>Documents and the vault\<close>

record file_stat =
  ctime :: int
  mtime :: int
  fileSize :: int

record tfile =
  path :: string
  basename :: string
  extension :: string
  stat :: file_stat

text \<open>
  The metadata cache's entry of a file: its front matter, when it has one, and what
  \<^verbatim>\<open>getAllTags(cache)\<close> returns for it (a list of tags, or null).
\<close>

record cached_metadata =
  frontmatter :: "(string \<times> jsval) list option"
  allTags :: "string list option"

record document =
  docFile :: tfile
  docPath :: string
  docName :: string
  properties :: "(string \<times> jsval) list"

datatype abstract_file = TFile tfile | TFolder string "abstract_file list"

text \<open>
  The application object, as far as the engine reads it: \<^verbatim>\<open>vault.getMarkdownFiles()\<close>,
  \<^verbatim>\<open>vault.getAbstractFileByPath\<close> and \<^verbatim>\<open>metadataCache.getFileCache\<close>.
\<close>

record app =
  getMarkdownFiles :: "tfile list"
  getAbstractFileByPath :: "string \<Rightarrow> abstract_file option"
  getFileCache :: "tfile \<Rightarrow> cached_metadata option"

subsection \<open>Property bags\<close>

text \<open>
  A property bag is an object: its keys in insertion order. \<open>setProperty\<close> is the
  assignment \<^verbatim>\<open>properties[key] = value\<close>, \<open>objectAssign\<close> is \<^verbatim>\<open>Object.assign\<close>.
\<close>

definition setProperty :: "(string \<times> jsval) list \<Rightarrow> string \<Rightarrow> jsval \<Rightarrow> (string \<times> jsval) list" where
  "setProperty kvs key val =
     (if key \<in> fst ` set kvs then map (\<lambda>(k, v). if k = key then (k, val) else (k, v)) kvs
      else kvs @ [(key, val)])"

definition objectAssign :: "(string \<times> jsval) list \<Rightarrow> (string \<times> jsval) list \<Rightarrow> (string \<times> jsval) list" where
  "objectAssign target src = foldl (\<lambda>acc (k, v). setProperty acc k v) target src"

text \<open>The loop of \<^verbatim>\<open>getPropertyValue\<close> over the parts of the path.\<close>

fun walkPath :: "jsval \<Rightarrow> string list \<Rightarrow> js_error + jsval" where
  "walkPath v [] = Inr v"
| "walkPath v (part # parts) =
     (if v = JNull \<or> v = JUndefined then Inr JUndefined
      else (case getMember v part of Inl e \<Rightarrow> Inl e | Inr v' \<Rightarrow> walkPath v' parts))"

definition getPropertyValue :: "(string \<times> jsval) list \<Rightarrow> string \<Rightarrow> js_error + jsval" where
  "getPropertyValue props p = walkPath (JObj props) (splitOn (CHR ''.'') p)"

subsection \<open>Loading a document\<close>

definition getDocumentData :: "app \<Rightarrow> tfile \<Rightarrow> document option" where
  "getDocumentData a f =
     (case getFileCache a f of
        None \<Rightarrow> None
      | Some cache \<Rightarrow>
          (let p0 = (case frontmatter cache of Some fm \<Rightarrow> objectAssign [] fm | None \<Rightarrow> []);
               p1 = setProperty p0 ''file.name'' (JStr (basename f));
               p2 = setProperty p1 ''file.path'' (JStr (path f));
               p3 = setProperty p2 ''file.ctime'' (JNum (of_int (ctime (stat f))));
               p4 = setProperty p3 ''file.mtime'' (JNum (of_int (mtime (stat f))));
               p5 = setProperty p4 ''file.size'' (JNum (of_int (fileSize (stat f))));
               tags = (case allTags cache of Some ts \<Rightarrow> ts | None \<Rightarrow> []);
               p6 = setProperty p5 ''file.tags'' (JArr (map JStr tags))
           in Some \<lparr>docFile = f, docPath = path f, docName = basename f, properties = p6\<rparr>))"

subsection \<open>Source resolution\<close>

definition endsWith :: "string \<Rightarrow> string \<Rightarrow> bool" where
  "endsWith s p \<longleftrightarrow> length p \<le> length s \<and> drop (length s - length p) s = p"

fun collectFilesRecursive :: "abstract_file list \<Rightarrow> tfile list" where
  "collectFilesRecursive [] = []"
| "collectFilesRecursive (TFile f # rest) =
     (if extension f = ''md'' then [f] else []) @ collectFilesRecursive rest"
| "collectFilesRecursive (TFolder p children # rest) =
     collectFilesRecursive children @ collectFilesRecursive rest"

definition getFilesFromFolder :: "app \<Rightarrow> string \<Rightarrow> tfile list" where
  "getFilesFromFolder a folderPath =
     (case getAbstractFileByPath a folderPath of
        Some (TFolder p children) \<Rightarrow> collectFilesRecursive children
      | _ \<Rightarrow> [])"

definition getSourceFiles :: "app \<Rightarrow> string \<Rightarrow> tfile list" where
  "getSourceFiles a src =
     (if src = ''all'' \<or> src = ''alle'' \<or> src = ''*'' then getMarkdownFiles a
      else if startsWith src ''#'' then
        (let tag = toLowerCase src
         in filter (\<lambda>f. case getFileCache a f of
                          None \<Rightarrow> False
                        | Some cache \<Rightarrow>
                            list_ex (\<lambda>t. toLowerCase t = tag \<or> startsWith (toLowerCase t) (tag @ ''/''))
                              (case allTags cache of Some ts \<Rightarrow> ts | None \<Rightarrow> []))
              (getMarkdownFiles a))
      else if startsWith src [dquote] \<and> endsWith src [dquote] then
        getFilesFromFolder a (take (length src - 2) (drop 1 src))
      else getFilesFromFolder a src)"

subsection \<open>The per-document filter\<close>

text \<open>
  The two regular expressions of \<^verbatim>\<open>evaluateFilter\<close> both start with \<^verbatim>\<open>(\S+)\<close>, and what
  follows it can match in one way only. \<open>searchFrom\<close> is the search of \<^verbatim>\<open>String.match\<close>:
  the leftmost start at which the expression matches, and there the longest run of
  \<^verbatim>\<open>\S\<close> after which the rest \<open>tail\<close> matches. It returns the text of the first group
  and what the rest captured.
\<close>

fun tryLengths :: "(string \<Rightarrow> 'a option) \<Rightarrow> string \<Rightarrow> nat \<Rightarrow> (string \<times> 'a) option" where
  "tryLengths tail s 0 = None"
| "tryLengths tail s (Suc n) =
     (case tail (drop (Suc n) s) of
        Some r \<Rightarrow> Some (take (Suc n) s, r)
      | None \<Rightarrow> tryLengths tail s n)"

definition matchAt :: "(string \<Rightarrow> 'a option) \<Rightarrow> string \<Rightarrow> (string \<times> 'a) option" where
  "matchAt tail s = tryLengths tail s (length (takeWhile (\<lambda>c. \<not> isSpace c) s))"

fun searchFrom :: "(string \<Rightarrow> 'a option) \<Rightarrow> string \<Rightarrow> (string \<times> 'a) option" where
  "searchFrom tail [] = None"
| "searchFrom tail (c # cs) =
     (case matchAt tail (c # cs) of Some r \<Rightarrow> Some r | None \<Rightarrow> searchFrom tail cs)"

text \<open>\<^verbatim>\<open>"([^"]+)"\<close>: the text between two double quotes, not empty.\<close>

definition matchQuoted :: "string \<Rightarrow> string option" where
  "matchQuoted t =
     (case t of
        [] \<Rightarrow> None
      | c # r \<Rightarrow>
          if c = dquote
          then (let v = takeWhile (\<lambda>c. c \<noteq> dquote) r
                in if v \<noteq> [] \<and> dropWhile (\<lambda>c. c \<noteq> dquote) r \<noteq> [] then Some v else None)
          else None)"

text \<open>\<^verbatim>\<open>\s+contains\s+"([^"]+)"\<close>, letters in either case.\<close>

definition matchContainsTail :: "string \<Rightarrow> string option" where
  "matchContainsTail t =
     (let r = dropWhile isSpace t in
      if takeWhile isSpace t = [] then None
      else if toLowerCase (take 8 r) \<noteq> ''contains'' then None
      else if takeWhile isSpace (drop 8 r) = [] then None
      else matchQuoted (dropWhile isSpace (drop 8 r)))"

text \<open>\<^verbatim>\<open>\s*(!?=)\s*"([^"]+)"\<close>: the operator and the value.\<close>

definition matchEqualsTail :: "string \<Rightarrow> (string \<times> string) option" where
  "matchEqualsTail t =
     (let r = dropWhile isSpace t;
          (bang, r1) = (case r of
                          [] \<Rightarrow> ([], r)
                        | c # r' \<Rightarrow> if c = CHR ''!'' then (''!'', r') else ([], r))
      in case r1 of
           [] \<Rightarrow> None
         | c # r2 \<Rightarrow>
             if c = CHR ''=''
             then map_option (\<lambda>v. (bang @ ''='', v)) (matchQuoted (dropWhile isSpace r2))
             else None)"

fun stringIncludes :: "string \<Rightarrow> string \<Rightarrow> bool" where
  "stringIncludes [] sub = (sub = [])"
| "stringIncludes (c # cs) sub = (startsWith (c # cs) sub \<or> stringIncludes cs sub)"

text \<open>The values that are not falsy: \<^verbatim>\<open>propValue || ""\<close> keeps them.\<close>

definition truthy :: "jsval \<Rightarrow> bool" where
  "truthy v \<longleftrightarrow> v \<noteq> JUndefined \<and> v \<noteq> JNull \<and> v \<noteq> JBool False \<and> v \<noteq> JNum 0 \<and> v \<noteq> JStr []"

definition evaluateFilter :: "document \<Rightarrow> string \<Rightarrow> js_error + bool" where
  "evaluateFilter doc flt =
     (case searchFrom matchContainsTail flt of
        Some (prop, val) \<Rightarrow>
          (case getPropertyValue (properties doc) prop of
             Inl e \<Rightarrow> Inl e
           | Inr propValue \<Rightarrow>
               (case propValue of
                  JArr vs \<Rightarrow> Inr (list_ex (\<lambda>v. stringIncludes (jsString v) val) vs)
                | _ \<Rightarrow> Inr (stringIncludes (jsString (if truthy propValue then propValue else JStr [])) val)))
      | None \<Rightarrow>
          (case searchFrom matchEqualsTail flt of
             Some (prop, operator, val) \<Rightarrow>
               (case getPropertyValue (properties doc) prop of
                  Inl e \<Rightarrow> Inl e
                | Inr propValue \<Rightarrow>
                    (let isEqual = (jsString propValue = val)
                     in Inr (if operator = ''!='' then \<not> isEqual else isEqual)))
           | None \<Rightarrow> Inr True))"

section \<open>value-picker-modal.ts\<close>

definition parseInputValue :: "string \<Rightarrow> jsval" where
  "parseInputValue input =
     (let tryInteger =
            (case parseInt10 input of
               None \<Rightarrow> JStr input
             | Some i \<Rightarrow> if numToString (of_int i) = input then JNum (of_int i) else JStr input)
      in case parseFloat input of
           None \<Rightarrow> tryInteger
         | Some num \<Rightarrow> if numToString num = input then JNum num else tryInteger)"

text \<open>
  The dialog, as the state its handlers read and write: the text of the input field and
  whether the confirm button is disabled. It opens with an empty field and the button
  disabled.
\<close>

record modal_state =
  inputValue :: string
  confirmDisabled :: bool

definition modalOpened :: modal_state where
  "modalOpened = \<lparr>inputValue = [], confirmDisabled = True\<rparr>"

text \<open>
  What the user can do with the open dialog: edit the field (the \<^verbatim>\<open>input\<close> event fires
  with the new text), click the chip of a suggested value, click the confirm button, press
  Enter or Escape in the field, click the cancel button. Every other way of closing the
  dialog does what the cancel button does: \<^verbatim>\<open>onClose\<close> finds the dialog unresolved.
\<close>

datatype modal_event =
    InputText string
  | ChipClick jsval
  | ConfirmClick
  | EnterKey
  | EscapeKey
  | CancelClick

definition validateInput :: "string \<Rightarrow> transformFn \<Rightarrow> modal_state \<Rightarrow> modal_state" where
  "validateInput groupLabel fn st =
     (let raw = trim (inputValue st) in
      if raw = [] then st\<lparr>confirmDisabled := True\<rparr>
      else (let parsed = parseInputValue raw;
                transformed = jsString (applyTransform parsed (Some fn))
            in if transformed = groupLabel then st\<lparr>confirmDisabled := False\<rparr>
               else st\<lparr>confirmDisabled := True\<rparr>))"

text \<open>
  The dialog over a sequence of events, up to the one that closes it. The result is the
  argument of the one call of \<^verbatim>\<open>onChoose\<close>: the chosen value on a confirmation, null when
  the dialog closes unresolved; \<open>None\<close> when the events end with the dialog still open.
\<close>

fun modalSession :: "string \<Rightarrow> jsval list \<Rightarrow> transformFn \<Rightarrow> modal_state \<Rightarrow> modal_event list
    \<Rightarrow> jsval option" where
  "modalSession groupLabel existingValues fn st [] = None"
| "modalSession groupLabel existingValues fn st (InputText s # es) =
     modalSession groupLabel existingValues fn
       (validateInput groupLabel fn (st\<lparr>inputValue := s\<rparr>)) es"
| "modalSession groupLabel existingValues fn st (ChipClick val # es) =
     (if val \<in> set existingValues
      then modalSession groupLabel existingValues fn
             (validateInput groupLabel fn (st\<lparr>inputValue := jsString val\<rparr>)) es
      else modalSession groupLabel existingValues fn st es)"
| "modalSession groupLabel existingValues fn st (ConfirmClick # es) =
     (if confirmDisabled st then modalSession groupLabel existingValues fn st es
      else Some (parseInputValue (trim (inputValue st))))"
| "modalSession groupLabel existingValues fn st (EnterKey # es) =
     (if confirmDisabled st then modalSession groupLabel existingValues fn st es
      else Some (parseInputValue (trim (inputValue st))))"
| "modalSession groupLabel existingValues fn st (EscapeKey # es) = Some JNull"
| "modalSession groupLabel existingValues fn st (CancelClick # es) = Some JNull"

section \<open>The renderer: drops\<close>

record renderer =
  xTransformFn :: "transformFn option"
  yTransformFn :: "transformFn option"
  xReverseMap :: "reverse_map option"
  yReverseMap :: "reverse_map option"
  currentDragDoc :: "document option"

text \<open>
  \<open>resolveDropValue\<close> over the events of the dialog it opens: \<open>None\<close> is the promise that
  never resolves, null is a cancelled resolution.
\<close>

definition resolveDropValue :: "jsval \<Rightarrow> transformFn option \<Rightarrow> reverse_map option \<Rightarrow> string
    \<Rightarrow> modal_event list \<Rightarrow> jsval option" where
  "resolveDropValue cellDisplayValue transformFn reverseMap axisName events =
     (case transformFn of
        None \<Rightarrow> Some cellDisplayValue
      | Some fn \<Rightarrow>
          (let candidates =
                 (case reverseMap of
                    None \<Rightarrow> []
                  | Some m \<Rightarrow> (case map_of m (jsString cellDisplayValue) of None \<Rightarrow> [] | Some c \<Rightarrow> c))
           in modalSession (jsString cellDisplayValue) candidates fn modalOpened events))"

text \<open>
  The drop handler of a cell. \<open>Suspended\<close>: a dialog is still open and the handler waits;
  \<open>NoWrite\<close>: the handler returned without a write; \<open>UpdateProperties\<close>: the one call of
  \<^verbatim>\<open>updater.updateProperties\<close>, with the file and the updates.
\<close>

datatype drop_outcome = NoWrite | Suspended | UpdateProperties tfile "(string \<times> jsval) list"

definition dropHandler :: "hermine_config \<Rightarrow> renderer \<Rightarrow> bool \<Rightarrow> jsval \<Rightarrow> jsval
    \<Rightarrow> modal_event list \<Rightarrow> modal_event list \<Rightarrow> drop_outcome" where
  "dropHandler config r zoneActive xVal yVal xEvents yEvents =
     (if \<not> zoneActive then NoWrite
      else case currentDragDoc r of
        None \<Rightarrow> NoWrite
      | Some doc \<Rightarrow>
          (let afterY = (\<lambda>updates.
                 if yReadonly config then
                   (if updates = [] then NoWrite else UpdateProperties (docFile doc) updates)
                 else (case resolveDropValue yVal (yTransformFn r) (yReverseMap r)
                              (propertyKey (yAxis config)) yEvents of
                         None \<Rightarrow> Suspended
                       | Some yWriteValue \<Rightarrow>
                           if yWriteValue = JNull then NoWrite
                           else UpdateProperties (docFile doc)
                                  (setProperty updates (propertyKey (yAxis config)) yWriteValue)))
           in if xReadonly config then afterY []
              else (case resolveDropValue xVal (xTransformFn r) (xReverseMap r) (xAxis config) xEvents of
                      None \<Rightarrow> Suspended
                    | Some xWriteValue \<Rightarrow>
                        if xWriteValue = JNull then NoWrite
                        else afterY (setProperty [] (xAxis config) xWriteValue))))"

section \<open>query-engine.ts: the query\<close>

text \<open>
  The JavaScript engine, for what \<^verbatim>\<open>execute\<close> hands to it: the evaluation of the text of
  a transform; the call \<^verbatim>\<open>new Function("docs", `return (${config.filter})(docs)`)\<close> on the
  documents, which throws, or returns an array of documents (\<open>Some\<close>) or something that is
  not an array (\<open>None\<close>); and the operator \<^verbatim>\<open><\<close> on two values. The functions of the user
  are taken to be pure: they return or throw, and change nothing.
\<close>

record js_runtime =
  evalJs :: js_eval
  callFilter :: "string \<Rightarrow> document list \<Rightarrow> js_error + document list option"
  jsLess :: "jsval \<Rightarrow> jsval \<Rightarrow> bool"

text \<open>
  \<^verbatim>\<open>config.xTransform ? compileTransform(config.xTransform) : null\<close>, in \<^verbatim>\<open>execute\<close> and in
  the \<^verbatim>\<open>onload\<close> of the renderer alike.
\<close>

definition compiledTransform :: "js_runtime \<Rightarrow> string option \<Rightarrow> transformFn option" where
  "compiledTransform rt t =
     (if truthyText t then compileTransform (evalJs rt) (configText t) else None)"

text \<open>
  The result under construction and the two local lists of raw values. A \<^verbatim>\<open>Set\<close> is the
  list of its elements in insertion order; \<open>setAdd\<close> is \<^verbatim>\<open>Set.prototype.add\<close>, with the
  equality of values for the sameness of the elements.
\<close>

record query_state =
  documents :: "document list"
  xAxisValues :: "jsval list"
  yAxisValues :: "jsval list"
  errors :: "string list"
  xRawValues :: "jsval list"
  yRawValues :: "jsval list"

record query_result =
  resultDocuments :: "document list"
  resultXAxisValues :: "jsval list"
  resultYAxisValues :: "jsval list"
  resultErrors :: "string list"
  xAxisRawValues :: "jsval list option"
  yAxisRawValues :: "jsval list option"

definition setAdd :: "jsval list \<Rightarrow> jsval \<Rightarrow> jsval list" where
  "setAdd s v = (if v \<in> set s then s else s @ [v])"

text \<open>
  One value of an axis: pushed to the raw values, its label added to the set. The pair is
  the list of raw values and the set of labels of the axis.
\<close>

definition collectValue :: "transformFn option \<Rightarrow> jsval list \<times> jsval list \<Rightarrow> jsval
    \<Rightarrow> jsval list \<times> jsval list" where
  "collectValue tf acc v = (fst acc @ [v], setAdd (snd acc) (applyTransform v tf))"

text \<open>
  The block that \<^verbatim>\<open>execute\<close> has four times, for each axis in each of its two passes:
  nothing for an absent value, every element of an array, the value itself otherwise.
\<close>

definition collectAxis :: "transformFn option \<Rightarrow> jsval \<Rightarrow> jsval list \<times> jsval list
    \<Rightarrow> jsval list \<times> jsval list" where
  "collectAxis tf val acc =
     (if val \<noteq> JUndefined \<and> val \<noteq> JNull
      then (case val of JArr vs \<Rightarrow> foldl (collectValue tf) acc vs | _ \<Rightarrow> collectValue tf acc val)
      else acc)"

text \<open>
  Both axes of one document. An exception leaves the state as it is at that point, and is
  returned with it.
\<close>

definition collectDocument :: "hermine_config \<Rightarrow> transformFn option \<Rightarrow> transformFn option
    \<Rightarrow> document \<Rightarrow> query_state \<Rightarrow> (js_error \<times> query_state) + query_state" where
  "collectDocument config xT yT doc st =
     (case (if xAxis config \<noteq> [] then
              (case getPropertyValue (properties doc) (xAxis config) of
                 Inl e \<Rightarrow> Inl (e, st)
               | Inr xValue \<Rightarrow>
                   (let acc = collectAxis xT xValue (xRawValues st, xAxisValues st)
                    in Inr (st\<lparr>xRawValues := fst acc, xAxisValues := snd acc\<rparr>)))
            else Inr st) of
        Inl failed \<Rightarrow> Inl failed
      | Inr st1 \<Rightarrow>
          (if truthyText (yAxis config) then
             (case getPropertyValue (properties doc) (propertyKey (yAxis config)) of
                Inl e \<Rightarrow> Inl (e, st1)
              | Inr yValue \<Rightarrow>
                  (let acc = collectAxis yT yValue (yRawValues st1, yAxisValues st1)
                   in Inr (st1\<lparr>yRawValues := fst acc, yAxisValues := snd acc\<rparr>)))
           else Inr st1))"

text \<open>The first pass, over the files of the source.\<close>

fun processFiles :: "app \<Rightarrow> hermine_config \<Rightarrow> transformFn option \<Rightarrow> transformFn option
    \<Rightarrow> query_state \<Rightarrow> tfile list \<Rightarrow> (js_error \<times> query_state) + query_state" where
  "processFiles a config xT yT st [] = Inr st"
| "processFiles a config xT yT st (f # fs) =
     (case getDocumentData a f of
        None \<Rightarrow> processFiles a config xT yT st fs
      | Some docData \<Rightarrow>
          (case (if truthyText (whereExpr config)
                 then evaluateFilter docData (configText (whereExpr config))
                 else Inr True) of
             Inl e \<Rightarrow> Inl (e, st)
           | Inr keep \<Rightarrow>
               if \<not> keep then processFiles a config xT yT st fs
               else (case collectDocument config xT yT docData
                            (st\<lparr>documents := documents st @ [docData]\<rparr>) of
                       Inl failed \<Rightarrow> Inl failed
                     | Inr st1 \<Rightarrow> processFiles a config xT yT st1 fs)))"

text \<open>The second pass, over the documents that the whole-set filter returned.\<close>

fun recollect :: "hermine_config \<Rightarrow> transformFn option \<Rightarrow> transformFn option
    \<Rightarrow> query_state \<Rightarrow> document list \<Rightarrow> (js_error \<times> query_state) + query_state" where
  "recollect config xT yT st [] = Inr st"
| "recollect config xT yT st (doc # docs) =
     (case collectDocument config xT yT doc st of
        Inl failed \<Rightarrow> Inl failed
      | Inr st1 \<Rightarrow> recollect config xT yT st1 docs)"

text \<open>The whole-set filter and its \<^verbatim>\<open>try\<close> block.\<close>

definition applyFilter :: "js_runtime \<Rightarrow> hermine_config \<Rightarrow> transformFn option \<Rightarrow> transformFn option
    \<Rightarrow> query_state \<Rightarrow> query_state" where
  "applyFilter rt config xT yT st =
     (if truthyText (filterExpr config) then
        (case callFilter rt (configText (filterExpr config)) (documents st) of
           Inl (JsError msg) \<Rightarrow> st\<lparr>errors := errors st @ [''Filter error: '' @ msg]\<rparr>
         | Inr None \<Rightarrow> st
         | Inr (Some filtered) \<Rightarrow>
             (case recollect config xT yT
                     (st\<lparr>documents := filtered, xAxisValues := [], yAxisValues := [],
                         xRawValues := [], yRawValues := []\<rparr>) filtered of
                Inr st1 \<Rightarrow> st1
              | Inl (JsError msg, st1) \<Rightarrow> st1\<lparr>errors := errors st1 @ [''Filter error: '' @ msg]\<rparr>))
      else st)"

subsection \<open>Sorting\<close>

text \<open>
  The comparison function of \<^verbatim>\<open>sortDocuments\<close>, on the two values of the property.
\<close>

definition compareValues :: "(jsval \<Rightarrow> jsval \<Rightarrow> bool) \<Rightarrow> sort_order \<Rightarrow> jsval \<Rightarrow> jsval \<Rightarrow> int" where
  "compareValues lt ord aVal bVal =
     (let comparison = (if lt bVal aVal then 1 else if lt aVal bVal then - 1 else 0)
      in if ord = Desc then - comparison else comparison)"

text \<open>
  \<^verbatim>\<open>Array.prototype.sort\<close> is stable; it is modelled by the insertion sort that puts an
  element behind the elements it does not precede (where the comparison is not a
  consistent order, the order that the built-in sort produces is left to the engine). The
  documents are sorted with their values, read beforehand.
\<close>

fun insertBy :: "('a \<Rightarrow> 'a \<Rightarrow> int) \<Rightarrow> 'a \<Rightarrow> 'a list \<Rightarrow> 'a list" where
  "insertBy cmp x [] = [x]"
| "insertBy cmp x (y # ys) = (if cmp x y < 0 then x # y # ys else y # insertBy cmp x ys)"

definition stableSort :: "('a \<Rightarrow> 'a \<Rightarrow> int) \<Rightarrow> 'a list \<Rightarrow> 'a list" where
  "stableSort cmp xs = foldl (\<lambda>acc x. insertBy cmp x acc) [] xs"

fun readKeys :: "string \<Rightarrow> document list \<Rightarrow> js_error + (document \<times> jsval) list" where
  "readKeys p [] = Inr []"
| "readKeys p (d # ds) =
     (case getPropertyValue (properties d) p of
        Inl e \<Rightarrow> Inl e
      | Inr v \<Rightarrow> (case readKeys p ds of Inl e \<Rightarrow> Inl e | Inr kvs \<Rightarrow> Inr ((d, v) # kvs)))"

definition sortDocuments :: "(jsval \<Rightarrow> jsval \<Rightarrow> bool) \<Rightarrow> document list \<Rightarrow> sort_spec
    \<Rightarrow> js_error + document list" where
  "sortDocuments lt docs sp =
     (case readKeys (sortBy sp) docs of
        Inl e \<Rightarrow> Inl e
      | Inr keyed \<Rightarrow>
          Inr (map fst (stableSort (\<lambda>a b. compareValues lt (sortOrder sp) (snd a) (snd b)) keyed)))"

subsection \<open>execute\<close>

definition initialState :: query_state where
  "initialState =
     \<lparr>documents = [], xAxisValues = [], yAxisValues = [], errors = [],
      xRawValues = [], yRawValues = []\<rparr>"

text \<open>The first pass of \<^verbatim>\<open>execute\<close>: the documents of the source that pass the filter.\<close>

definition perDocumentStage :: "js_runtime \<Rightarrow> app \<Rightarrow> hermine_config
    \<Rightarrow> (js_error \<times> query_state) + query_state" where
  "perDocumentStage rt a config =
     processFiles a config (compiledTransform rt (xTransform config))
       (compiledTransform rt (yTransform config)) initialState (getSourceFiles a (source config))"

definition execute :: "js_runtime \<Rightarrow> app \<Rightarrow> hermine_config \<Rightarrow> query_result" where
  "execute rt a config =
     (case perDocumentStage rt a config of
        Inl (JsError msg, st) \<Rightarrow>
          \<lparr>resultDocuments = documents st, resultXAxisValues = xAxisValues st,
           resultYAxisValues = yAxisValues st,
           resultErrors = errors st @ [''Query error: '' @ msg],
           xAxisRawValues = None, yAxisRawValues = None\<rparr>
      | Inr st1 \<Rightarrow>
          (let st2 = applyFilter rt config (compiledTransform rt (xTransform config))
                       (compiledTransform rt (yTransform config)) st1;
               attached = \<lparr>resultDocuments = documents st2, resultXAxisValues = xAxisValues st2,
                           resultYAxisValues = yAxisValues st2, resultErrors = errors st2,
                           xAxisRawValues = Some (xRawValues st2),
                           yAxisRawValues = Some (yRawValues st2)\<rparr>
           in case sortSpec config of
                None \<Rightarrow> attached
              | Some sp \<Rightarrow>
                  (case sortDocuments (jsLess rt) (documents st2) sp of
                     Inr sortedDocs \<Rightarrow> attached\<lparr>resultDocuments := sortedDocs\<rparr>
                   | Inl (JsError msg) \<Rightarrow>
                       attached\<lparr>resultErrors := errors st2 @ [''Query error: '' @ msg]\<rparr>)))"

section \<open>The renderer: loading and cells\<close>

text \<open>
  \<^verbatim>\<open>onload\<close>: the transforms are compiled as in the query, and the reverse map of an axis
  is built when its transform compiled and the result carries its raw values.
\<close>

definition onload :: "js_runtime \<Rightarrow> hermine_config \<Rightarrow> query_result \<Rightarrow> renderer" where
  "onload rt config result =
     (let xFn = compiledTransform rt (xTransform config);
          yFn = compiledTransform rt (yTransform config)
      in \<lparr>xTransformFn = xFn, yTransformFn = yFn,
          xReverseMap = (case (xFn, xAxisRawValues result) of
                           (Some fn, Some raws) \<Rightarrow> Some (buildReverseMap raws fn)
                         | _ \<Rightarrow> None),
          yReverseMap = (case (yFn, yAxisRawValues result) of
                           (Some fn, Some raws) \<Rightarrow> Some (buildReverseMap raws fn)
                         | _ \<Rightarrow> None),
          currentDragDoc = None\<rparr>)"

text \<open>
  The test of \<^verbatim>\<open>renderMatrix\<close> for one axis of a cell: the string form of the transformed
  value, or of one transformed element of an array, is the string form of the label.
\<close>

definition axisMatches :: "transformFn option \<Rightarrow> jsval \<Rightarrow> jsval \<Rightarrow> bool" where
  "axisMatches tf raw cellVal =
     (case raw of
        JArr vs \<Rightarrow> list_ex (\<lambda>v. jsString (applyTransform v tf) = jsString cellVal) vs
      | _ \<Rightarrow> jsString (applyTransform raw tf) = jsString cellVal)"

text \<open>
  The lookup with the path \<^verbatim>\<open>config.yAxis!\<close>: on an undefined path \<^verbatim>\<open>path.split\<close> throws.
\<close>

definition getPropertyValueAt :: "(string \<times> jsval) list \<Rightarrow> string option \<Rightarrow> js_error + jsval" where
  "getPropertyValueAt props p =
     (case p of
        None \<Rightarrow> Inl (JsError ''Cannot read properties of undefined (reading split)'')
      | Some s \<Rightarrow> getPropertyValue props s)"

text \<open>Whether a document is among the \<^verbatim>\<open>matchingDocs\<close> of the cell of \<open>xVal\<close> and \<open>yVal\<close>.\<close>

definition cellMatches :: "hermine_config \<Rightarrow> renderer \<Rightarrow> jsval \<Rightarrow> jsval \<Rightarrow> document
    \<Rightarrow> js_error + bool" where
  "cellMatches config r xVal yVal doc =
     (case getPropertyValue (properties doc) (xAxis config) of
        Inl e \<Rightarrow> Inl e
      | Inr rawX \<Rightarrow>
          (case getPropertyValueAt (properties doc) (yAxis config) of
             Inl e \<Rightarrow> Inl e
           | Inr rawY \<Rightarrow>
               Inr (axisMatches (xTransformFn r) rawX xVal \<and> axisMatches (yTransformFn r) rawY yVal)))"

section \<open>What the query has collected\<close>

text \<open>
  \<open>axisCovers\<close>: when the property \<open>p\<close> of the document is an array, each of its elements
  is among the raw values and the label of each is among the labels. \<open>stateCovers\<close> says
  so of both configured axes of a state of the query.
\<close>

definition axisCovers :: "string \<Rightarrow> transformFn option \<Rightarrow> jsval list \<Rightarrow> jsval list \<Rightarrow> document \<Rightarrow> bool" where
  "axisCovers p tf raws vals d \<longleftrightarrow>
     (\<forall>vs. getPropertyValue (properties d) p = Inr (JArr vs) \<longrightarrow>
        set vs \<subseteq> set raws \<and> (\<forall>e\<in>set vs. applyTransform e tf \<in> set vals))"

definition stateCovers :: "hermine_config \<Rightarrow> transformFn option \<Rightarrow> transformFn option \<Rightarrow> query_state \<Rightarrow> document \<Rightarrow> bool" where
  "stateCovers config xT yT st d \<longleftrightarrow>
     (xAxis config \<noteq> [] \<longrightarrow> axisCovers (xAxis config) xT (xRawValues st) (xAxisValues st) d)
     \<and> (truthyText (yAxis config) \<longrightarrow>
          axisCovers (propertyKey (yAxis config)) yT (yRawValues st) (yAxisValues st) d)"

section \<open>Example vault\<close>

text \<open>
  A vault of one note, \<^verbatim>\<open>notes/Note.md\<close>, with the front matter \<^verbatim>\<open>Status: Open\<close>, and no
  folder named \<^verbatim>\<open>every\<close>; and the same note with a front matter that declares a
  property \<^verbatim>\<open>file\<close> of its own.
\<close>

definition exampleFile :: tfile where
  "exampleFile =
     \<lparr>path = ''notes/Note.md'', basename = ''Note'', extension = ''md'',
      stat = \<lparr>ctime = 1700000000000, mtime = 1700000360000, fileSize = 42\<rparr>\<rparr>"

definition exampleApp :: app where
  "exampleApp =
     \<lparr>getMarkdownFiles = [exampleFile],
      getAbstractFileByPath =
        (\<lambda>p. if p = ''notes'' then Some (TFolder ''notes'' [TFile exampleFile]) else None),
      getFileCache = (\<lambda>f. Some \<lparr>frontmatter = Some [(''Status'', JStr ''Open'')], allTags = None\<rparr>)\<rparr>"

definition exampleAppDeclaredFile :: app where
  "exampleAppDeclaredFile =
     exampleApp\<lparr>getFileCache :=
       (\<lambda>f. Some \<lparr>frontmatter = Some [(''file'', JObj [(''name'', JStr ''Mine'')])], allTags = None\<rparr>)\<rparr>"

text \<open>A document with a status and two tags, and no priority.\<close>

definition exampleDocument :: document where
  "exampleDocument =
     \<lparr>docFile = exampleFile, docPath = ''notes/Note.md'', docName = ''Note'',
      properties = [(''Status'', JStr ''Open''), (''Tags'', JArr [JStr ''alpha'', JStr ''beta''])]\<rparr>"

text \<open>
  A transform that rounds a number down to a multiple of ten and throws on every other
  value; a board whose X axis is the status and whose Y axis is the score, grouped by that
  transform, with the example document being dragged.
\<close>

definition floorToTen :: transformFn where
  "floorToTen v =
     (case v of
        JNum x \<Rightarrow> Inr (JNum (of_int (\<lfloor>x / 10\<rfloor> * 10)))
      | _ \<Rightarrow> Inl (JsError ''not a number''))"

definition exampleConfig :: hermine_config where
  "exampleConfig =
     \<lparr>source = ''all'', xAxis = ''Status'', yAxis = Some ''Score'', xValues = None, yValues = None,
      sortSpec = None, whereExpr = None, filterExpr = None, xReadonly = False, yReadonly = False,
      xTransform = None, yTransform = Some ''(v) => Math.floor(v / 10) * 10''\<rparr>"

definition exampleRenderer :: renderer where
  "exampleRenderer =
     \<lparr>xTransformFn = None, yTransformFn = Some floorToTen,
      xReverseMap = None, yReverseMap = Some [(''10'', [JNum 13, JNum 14])],
      currentDragDoc = Some exampleDocument\<rparr>"

text \<open>
  A vault of two notes, one of them with the two scores 13 and 27; an engine that compiles
  every transform to \<open>floorToTen\<close> (which is what the transform of the example
  configuration computes on numbers) and in which every whole-set filter throws; and the
  example configuration with such a filter.
\<close>

definition scoredFile :: tfile where
  "scoredFile = exampleFile\<lparr>path := ''notes/Scored.md'', basename := ''Scored''\<rparr>"

definition scoredApp :: app where
  "scoredApp =
     \<lparr>getMarkdownFiles = [exampleFile, scoredFile],
      getAbstractFileByPath = (\<lambda>p. None),
      getFileCache =
        (\<lambda>f. if basename f = ''Scored''
             then Some \<lparr>frontmatter = Some [(''Status'', JStr ''Open''), (''Score'', JArr [JNum 13, JNum 27])],
                        allTags = None\<rparr>
             else Some \<lparr>frontmatter = Some [(''Status'', JStr ''Done''), (''Score'', JNum 5)],
                        allTags = None\<rparr>)\<rparr>"

definition exampleRuntime :: js_runtime where
  "exampleRuntime =
     \<lparr>evalJs = (\<lambda>body. Inr (Callable floorToTen)),
      callFilter = (\<lambda>text docs. Inl (JsError ''docs.nope is not a function'')),
      jsLess = (\<lambda>a b. case (a, b) of (JNum x, JNum y) \<Rightarrow> x < y | _ \<Rightarrow> False)\<rparr>"


section \<open>Verified properties\<close>

subsection \<open>Transform compilation\<close>

text \<open>
  C9. Whatever the engine would make of the text, an expression whose trimmed text does not
  start with an opening parenthesis compiles to no transform, and an axis with no transform
  leaves every value as it is. The one-parameter arrow function \<^verbatim>\<open>v => v\<close> is such a text.
\<close>

theorem compileTransform_requires_paren:
  "\<not> startsWith (trim expr) ''('' \<Longrightarrow>
     compileTransform engine expr = None \<and> applyTransform v (compileTransform engine expr) = v"
  by (simp add: compileTransform_def applyTransform_def)

theorem compileTransform_requires_paren_witness:
  "\<not> startsWith (trim ''v => v'') ''(''
   \<and> compileTransform (\<lambda>body. Inr (Callable (\<lambda>x. Inr x))) ''v => v'' = None
   \<and> applyTransform (JStr ''a'') (compileTransform (\<lambda>body. Inr (Callable (\<lambda>x. Inr x))) ''v => v'')
       = JStr ''a''"
proof -
  have h: "\<not> startsWith (trim ''v => v'') ''(''"
    by (simp add: startsWith_def trim_def isSpace_def)
  from compileTransform_requires_paren [OF h, of "\<lambda>body. Inr (Callable (\<lambda>x. Inr x))" "JStr ''a''"] h
  show ?thesis by blast
qed

subsection \<open>Property lookup\<close>

lemma getMember_defined:
  "v \<noteq> JNull \<Longrightarrow> v \<noteq> JUndefined \<Longrightarrow> \<exists>u. getMember v part = Inr u"
  by (cases v) (auto simp: getMember_def split: option.splits)

lemma walkPath_total: "\<exists>u. walkPath v parts = Inr u"
proof (induction parts arbitrary: v)
  case Nil
  show ?case by simp
next
  case (Cons part parts)
  show ?case
  proof (cases "v = JNull \<or> v = JUndefined")
    case True
    then show ?thesis by auto
  next
    case False
    then obtain u where "getMember v part = Inr u"
      using getMember_defined by blast
    with False Cons.IH [of u] show ?thesis by simp
  qed
qed



lemma getPropertyValue_defined: "\<exists>v. getPropertyValue props p = Inr v"
  unfolding getPropertyValue_def by (rule walkPath_total)



subsection \<open>Property bags\<close>

lemma map_of_map_replace:
  "k \<in> fst ` set kvs \<Longrightarrow>
   map_of (map (\<lambda>(k', v'). if k' = k then (k', v) else (k', v')) kvs) k = Some v"
proof (induction kvs)
  case Nil
  then show ?case by simp
next
  case (Cons a kvs)
  obtain k' v' where a: "a = (k', v')" by (cases a)
  show ?case
  proof (cases "k' = k")
    case True
    then show ?thesis by (simp add: a)
  next
    case False
    with Cons.prems a have "k \<in> fst ` set kvs" by auto
    from Cons.IH [OF this] False show ?thesis by (simp add: a)
  qed
qed

lemma map_of_setProperty_same: "map_of (setProperty kvs k v) k = Some v"
proof (cases "k \<in> fst ` set kvs")
  case True
  then show ?thesis by (simp add: setProperty_def map_of_map_replace)
next
  case False
  then have "map_of kvs k = None" by (simp add: map_of_eq_None_iff)
  with False show ?thesis by (simp add: setProperty_def map_add_def)
qed

lemma setProperty_empty: "setProperty [] k v = [(k, v)]"
  by (simp add: setProperty_def)

lemma map_of_setProperty_other:
  "k' \<noteq> k \<Longrightarrow> map_of (setProperty [(k', v')] k v) k' = Some v'"
  by (simp add: setProperty_def)

lemma map_fst_replace:
  "map fst (map (\<lambda>(k', v'). if k' = k then (k', v) else (k', v')) kvs) = map fst kvs"
  by (induction kvs) auto

lemma setProperty_keys: "fst ` set (setProperty kvs k v) = insert k (fst ` set kvs)"
proof (cases "k \<in> fst ` set kvs")
  case True
  have "fst ` set (setProperty kvs k v)
      = set (map fst (map (\<lambda>(k', v'). if k' = k then (k', v) else (k', v')) kvs))"
    using True by (simp add: setProperty_def del: map_map)
  also have "\<dots> = fst ` set kvs" by (simp only: map_fst_replace set_map)
  finally show ?thesis using True by blast
next
  case False
  then show ?thesis by (simp add: setProperty_def)
qed

lemma map_of_map_replace_other:
  "k' \<noteq> k \<Longrightarrow>
   map_of (map (\<lambda>(a, b). if a = k then (a, v) else (a, b)) kvs) k' = map_of kvs k'"
proof (induction kvs)
  case Nil
  show ?case by simp
next
  case (Cons x kvs)
  obtain a b where x: "x = (a, b)" by (cases x)
  from Cons show ?case by (simp add: x)
qed

lemma map_of_setProperty:
  "map_of (setProperty kvs k v) k' = (if k' = k then Some v else map_of kvs k')"
proof (cases "k' = k")
  case True
  then show ?thesis by (simp add: map_of_setProperty_same)
next
  case False
  then show ?thesis
    by (auto simp: setProperty_def map_of_map_replace_other map_add_def split: option.splits)
qed

lemma objectAssign_keys:
  "fst ` set (objectAssign target src) = fst ` set target \<union> fst ` set src"
  unfolding objectAssign_def
proof (induction src arbitrary: target)
  case Nil
  show ?case by simp
next
  case (Cons x src)
  obtain k v where x: "x = (k, v)" by (cases x)
  show ?case
    by (auto simp: x Cons.IH setProperty_keys)
qed

lemma splitOn_nonempty: "splitOn sep s \<noteq> []"
  by (induction s) (auto split: list.splits)

lemma splitOn_prefix:
  "sep \<notin> set p \<Longrightarrow> splitOn sep (p @ sep # rest) = p # splitOn sep rest"
  by (induction p) auto

subsection \<open>File-derived properties\<close>

text \<open>
  What the loader does with the file-derived values: each is stored under one key that
  contains a dot, where it replaces a declared property of that very key; and unless the
  front matter declares a property \<^verbatim>\<open>file\<close>, every path that starts with \<^verbatim>\<open>file.\<close> looks
  up as undefined.
\<close>

lemma synthesized_only_under_flat_keys:
  assumes "getDocumentData a f = Some doc" and "getFileCache a f = Some cache"
  shows "map_of (properties doc) ''file.name'' = Some (JStr (basename f))"
    and "map_of (properties doc) ''file.path'' = Some (JStr (path f))"
    and "map_of (properties doc) ''file.tags''
          = Some (JArr (map JStr (case allTags cache of Some ts \<Rightarrow> ts | None \<Rightarrow> [])))"
    and "(case frontmatter cache of None \<Rightarrow> True | Some fm \<Rightarrow> ''file'' \<notin> fst ` set fm) \<Longrightarrow>
           getPropertyValue (properties doc) (''file.'' @ rest) = Inr JUndefined"
proof -
  define p0 where "p0 = (case frontmatter cache of Some fm \<Rightarrow> objectAssign [] fm | None \<Rightarrow> [])"
  have props: "properties doc =
      setProperty (setProperty (setProperty (setProperty (setProperty (setProperty p0
        ''file.name'' (JStr (basename f)))
        ''file.path'' (JStr (path f)))
        ''file.ctime'' (JNum (of_int (ctime (stat f)))))
        ''file.mtime'' (JNum (of_int (mtime (stat f)))))
        ''file.size'' (JNum (of_int (fileSize (stat f)))))
        ''file.tags'' (JArr (map JStr (case allTags cache of Some ts \<Rightarrow> ts | None \<Rightarrow> [])))"
    using assms by (auto simp: getDocumentData_def Let_def p0_def)
  show "map_of (properties doc) ''file.name'' = Some (JStr (basename f))"
    and "map_of (properties doc) ''file.path'' = Some (JStr (path f))"
    and "map_of (properties doc) ''file.tags''
          = Some (JArr (map JStr (case allTags cache of Some ts \<Rightarrow> ts | None \<Rightarrow> [])))"
    by (simp_all add: props map_of_setProperty)
  assume nf: "(case frontmatter cache of None \<Rightarrow> True | Some fm \<Rightarrow> ''file'' \<notin> fst ` set fm)"
  have "''file'' \<notin> fst ` set p0"
    using nf by (auto simp: p0_def objectAssign_keys split: option.splits)
  then have "map_of p0 ''file'' = None" by (simp add: map_of_eq_None_iff)
  then have m: "map_of (properties doc) ''file'' = None"
    by (simp add: props map_of_setProperty)
  have sp: "splitOn (CHR ''.'') (''file.'' @ rest) = ''file'' # splitOn (CHR ''.'') rest"
    using splitOn_prefix [of "CHR ''.''" "''file''" rest] by simp
  obtain q qs where q: "splitOn (CHR ''.'') rest = q # qs"
    using splitOn_nonempty [of "CHR ''.''" rest] by (cases "splitOn (CHR ''.'') rest") auto
  show "getPropertyValue (properties doc) (''file.'' @ rest) = Inr JUndefined"
    unfolding getPropertyValue_def sp q by (simp add: getMember_def m)
qed

text \<open>
  C3. The loader stores the name of the file under the one key \<^verbatim>\<open>file.name\<close> of the bag,
  but the lookup splits the path \<^verbatim>\<open>file.name\<close> at the dot and reads the key \<^verbatim>\<open>file\<close>
  first: on the example note it returns undefined, not the name, and when the front
  matter declares \<^verbatim>\<open>file: {name: Mine}\<close> it returns the declared value.
\<close>

theorem file_name_lookup_misses_synthesized:
  "(\<exists>doc. getDocumentData exampleApp exampleFile = Some doc
      \<and> map_of (properties doc) ''file.name'' = Some (JStr ''Note'')
      \<and> getPropertyValue (properties doc) ''file.name'' = Inr JUndefined)
   \<and> (\<exists>doc. getDocumentData exampleAppDeclaredFile exampleFile = Some doc
      \<and> map_of (properties doc) ''file.name'' = Some (JStr ''Note'')
      \<and> getPropertyValue (properties doc) ''file.name'' = Inr (JStr ''Mine''))"
  by (simp add: getDocumentData_def exampleApp_def exampleAppDeclaredFile_def exampleFile_def
      objectAssign_def setProperty_def getPropertyValue_def getMember_def)

subsection \<open>Source resolution\<close>

text \<open>
  C5, as the code has it: the specifiers \<^verbatim>\<open>all\<close>, \<^verbatim>\<open>alle\<close> and \<^verbatim>\<open>*\<close> resolve to all the
  markdown files of the vault.
\<close>

theorem getSourceFiles_all:
  "getSourceFiles a ''all'' = getMarkdownFiles a
   \<and> getSourceFiles a ''alle'' = getMarkdownFiles a
   \<and> getSourceFiles a ''*'' = getMarkdownFiles a"
  by (simp add: getSourceFiles_def)

text \<open>
  The specifier \<^verbatim>\<open>every\<close> is not one of them: it is read as a folder path, and in a vault
  with no such folder it resolves to no file at all.
\<close>

theorem getSourceFiles_every_counterexample:
  "getSourceFiles exampleApp ''every'' \<noteq> getMarkdownFiles exampleApp"
  by (simp add: getSourceFiles_def exampleApp_def startsWith_def endsWith_def
      getFilesFromFolder_def dquote_def)

subsection \<open>The equality filter on an absent property\<close>

lemma takeWhile_nonspace_append:
  "\<forall>c\<in>set p. \<not> isSpace c \<Longrightarrow> isSpace x \<Longrightarrow> takeWhile (\<lambda>c. \<not> isSpace c) (p @ x # r) = p"
  by (induction p) auto

lemma matchContainsTail_nonspace: "\<not> isSpace c \<Longrightarrow> matchContainsTail (c # r) = None"
  by (simp add: matchContainsTail_def)

lemma tryLengths_contains_none:
  assumes ns: "\<forall>c\<in>set q. \<not> isSpace c" and sfx: "matchContainsTail sfx = None"
  shows "n \<le> length q \<Longrightarrow> tryLengths matchContainsTail (q @ sfx) n = None"
proof (induction n)
  case 0
  show ?case by simp
next
  case (Suc n)
  have "matchContainsTail (drop (Suc n) (q @ sfx)) = None"
  proof (cases "Suc n < length q")
    case True
    then obtain c r where cr: "drop (Suc n) q = c # r"
      by (cases "drop (Suc n) q") auto
    then have "c \<in> set q" by (metis in_set_dropD list.set_intros(1))
    with ns have "\<not> isSpace c" by blast
    with cr True show ?thesis by (simp add: matchContainsTail_nonspace)
  next
    case False
    with Suc.prems have "Suc n = length q" by simp
    then show ?thesis using sfx by simp
  qed
  with Suc show ?case by simp
qed

lemma searchFrom_contains_none:
  assumes sfx: "matchContainsTail (x # r) = None"
    and rest: "searchFrom matchContainsTail (x # r) = None"
    and sp: "isSpace x"
  shows "\<forall>c\<in>set q. \<not> isSpace c \<Longrightarrow> searchFrom matchContainsTail (q @ x # r) = None"
proof (induction q)
  case Nil
  then show ?case using rest by simp
next
  case (Cons c q)
  have tw: "takeWhile (\<lambda>c. \<not> isSpace c) ((c # q) @ x # r) = c # q"
    using takeWhile_nonspace_append [of "c # q" x r] Cons.prems sp by blast
  have "matchAt matchContainsTail ((c # q) @ x # r) = None"
    unfolding matchAt_def tw
    using tryLengths_contains_none [of "c # q" "x # r" "length (c # q)"] Cons.prems sfx by blast
  with Cons show ?case by simp
qed

lemma searchFrom_equals_hit:
  assumes ns: "\<forall>c\<in>set p. \<not> isSpace c" and ne: "p \<noteq> []"
    and sfx: "matchEqualsTail (x # r) = Some res" and sp: "isSpace x"
  shows "searchFrom matchEqualsTail (p @ x # r) = Some (p, res)"
proof -
  obtain c q where p: "p = c # q" using ne by (cases p) auto
  have tw: "takeWhile (\<lambda>c. \<not> isSpace c) (p @ x # r) = p"
    using takeWhile_nonspace_append [OF ns sp] .
  have "length p = Suc (length q)" using p by simp
  then have "tryLengths matchEqualsTail (p @ x # r) (length p) = Some (p, res)"
    using sfx by simp
  then have "matchAt matchEqualsTail (p @ x # r) = Some (p, res)"
    unfolding matchAt_def tw .
  then show ?thesis unfolding p by simp
qed

lemma isSpace_blank: "isSpace (CHR '' '')"
  by (simp add: isSpace_def)

lemma equals_undefined_contains:
  "matchContainsTail ('' = '' @ [dquote] @ ''undefined'' @ [dquote]) = None"
  "searchFrom matchContainsTail ('' = '' @ [dquote] @ ''undefined'' @ [dquote]) = None"
  by (simp_all add: matchContainsTail_def isSpace_def dquote_def toLowerCase_def toLowerChar_def
      matchAt_def)

lemma equals_undefined_tail:
  "matchEqualsTail ('' = '' @ [dquote] @ ''undefined'' @ [dquote]) = Some (''='', ''undefined'')"
  by (simp add: matchEqualsTail_def matchQuoted_def isSpace_def dquote_def)

lemma differs_undefined_contains:
  "matchContainsTail ('' != '' @ [dquote] @ ''undefined'' @ [dquote]) = None"
  "searchFrom matchContainsTail ('' != '' @ [dquote] @ ''undefined'' @ [dquote]) = None"
  by (simp_all add: matchContainsTail_def isSpace_def dquote_def toLowerCase_def toLowerChar_def
      matchAt_def)

lemma differs_undefined_tail:
  "matchEqualsTail ('' != '' @ [dquote] @ ''undefined'' @ [dquote]) = Some (''!='', ''undefined'')"
  by (simp add: matchEqualsTail_def matchQuoted_def isSpace_def dquote_def)

lemma evaluateFilter_equals_undefined:
  assumes "p \<noteq> []" and "\<forall>c\<in>set p. \<not> isSpace c"
    and "getPropertyValue (properties doc) p = Inr JUndefined"
  shows "evaluateFilter doc (p @ '' = '' @ [dquote] @ ''undefined'' @ [dquote]) = Inr True"
proof -
  have c: "searchFrom matchContainsTail (p @ '' = '' @ [dquote] @ ''undefined'' @ [dquote]) = None"
    using searchFrom_contains_none [of "CHR '' ''" "''= '' @ [dquote] @ ''undefined'' @ [dquote]" p]
      equals_undefined_contains isSpace_blank assms(2) by simp
  have e: "searchFrom matchEqualsTail (p @ '' = '' @ [dquote] @ ''undefined'' @ [dquote])
      = Some (p, ''='', ''undefined'')"
    using searchFrom_equals_hit [of p "CHR '' ''" "''= '' @ [dquote] @ ''undefined'' @ [dquote]"
        "(''='', ''undefined'')"]
      equals_undefined_tail isSpace_blank assms(1,2) by simp
  show ?thesis
    unfolding evaluateFilter_def c e using assms(3) by simp
qed

lemma evaluateFilter_differs_undefined:
  assumes "p \<noteq> []" and "\<forall>c\<in>set p. \<not> isSpace c"
    and "getPropertyValue (properties doc) p = Inr JUndefined"
  shows "evaluateFilter doc (p @ '' != '' @ [dquote] @ ''undefined'' @ [dquote]) = Inr False"
proof -
  have c: "searchFrom matchContainsTail (p @ '' != '' @ [dquote] @ ''undefined'' @ [dquote]) = None"
    using searchFrom_contains_none [of "CHR '' ''" "''!= '' @ [dquote] @ ''undefined'' @ [dquote]" p]
      differs_undefined_contains isSpace_blank assms(2) by simp
  have e: "searchFrom matchEqualsTail (p @ '' != '' @ [dquote] @ ''undefined'' @ [dquote])
      = Some (p, ''!='', ''undefined'')"
    using searchFrom_equals_hit [of p "CHR '' ''" "''!= '' @ [dquote] @ ''undefined'' @ [dquote]"
        "(''!='', ''undefined'')"]
      differs_undefined_tail isSpace_blank assms(1,2) by simp
  show ?thesis
    unfolding evaluateFilter_def c e using assms(3) by simp
qed

text \<open>
  C10. For a document on which the path \<open>p\<close> (a non-empty text without white space, as the
  filter shape requires of a path) resolves to undefined, the filter \<^verbatim>\<open>p = "undefined"\<close>
  is true and the filter \<^verbatim>\<open>p != "undefined"\<close> is false: the absent value is compared
  through its string form.
\<close>

theorem evaluateFilter_absent_is_undefined_text:
  assumes "p \<noteq> []" and "\<forall>c\<in>set p. \<not> isSpace c"
    and "getPropertyValue (properties doc) p = Inr JUndefined"
  shows "evaluateFilter doc (p @ '' = '' @ [dquote] @ ''undefined'' @ [dquote]) = Inr True
       \<and> evaluateFilter doc (p @ '' != '' @ [dquote] @ ''undefined'' @ [dquote]) = Inr False"
  using evaluateFilter_equals_undefined [OF assms] evaluateFilter_differs_undefined [OF assms]
  by blast

theorem evaluateFilter_absent_is_undefined_text_witness:
  "''Priority'' \<noteq> [] \<and> list_all (\<lambda>c. \<not> isSpace c) ''Priority''
   \<and> getPropertyValue (properties exampleDocument) ''Priority'' = Inr JUndefined
   \<and> evaluateFilter exampleDocument (''Priority = '' @ [dquote] @ ''undefined'' @ [dquote]) = Inr True
   \<and> evaluateFilter exampleDocument (''Priority != '' @ [dquote] @ ''undefined'' @ [dquote]) = Inr False"
proof -
  have h1: "''Priority'' \<noteq> []" by simp
  have h2: "\<forall>c\<in>set ''Priority''. \<not> isSpace c" by (simp add: isSpace_def)
  have h3: "getPropertyValue (properties exampleDocument) ''Priority'' = Inr JUndefined"
    by (simp add: exampleDocument_def getPropertyValue_def getMember_def)
  have h2': "list_all (\<lambda>c. \<not> isSpace c) ''Priority''" by (simp add: isSpace_def)
  from evaluateFilter_absent_is_undefined_text [OF h1 h2 h3] h2' h3
  show ?thesis by simp
qed

subsection \<open>Drop resolution\<close>

lemma modalSession_accepts:
  "modalSession label ex fn st es = Some v \<Longrightarrow> v \<noteq> JNull \<Longrightarrow>
   (\<not> confirmDisabled st \<longrightarrow>
      jsString (applyTransform (parseInputValue (trim (inputValue st))) (Some fn)) = label) \<Longrightarrow>
   jsString (applyTransform v (Some fn)) = label"
proof (induction label ex fn st es rule: modalSession.induct)
  case (1 groupLabel existingValues fn st)
  then show ?case by simp
next
  case (2 groupLabel existingValues fn st s es)
  show ?case
  proof (rule 2(1))
    show "modalSession groupLabel existingValues fn
            (validateInput groupLabel fn (st\<lparr>inputValue := s\<rparr>)) es = Some v"
      using 2(2) by simp
    show "v \<noteq> JNull" by (rule 2(3))
    show "\<not> confirmDisabled (validateInput groupLabel fn (st\<lparr>inputValue := s\<rparr>)) \<longrightarrow>
        jsString (applyTransform
          (parseInputValue (trim (inputValue (validateInput groupLabel fn (st\<lparr>inputValue := s\<rparr>)))))
          (Some fn)) = groupLabel"
      by (simp add: validateInput_def Let_def)
  qed
next
  case (3 groupLabel existingValues fn st val es)
  then show ?case
    by (auto simp: validateInput_def Let_def split: if_splits)
next
  case (4 groupLabel existingValues fn st es)
  then show ?case by (auto split: if_splits)
next
  case (5 groupLabel existingValues fn st es)
  then show ?case by (auto split: if_splits)
next
  case (6 groupLabel existingValues fn st es)
  then show ?case by simp
next
  case (7 groupLabel existingValues fn st es)
  then show ?case by simp
qed

lemma resolveDropValue_accepts:
  assumes "resolveDropValue cellDisplayValue (Some fn) reverseMap axisName events = Some v"
    and "v \<noteq> JNull"
  shows "jsString (applyTransform v (Some fn)) = jsString cellDisplayValue"
proof -
  from assms(1) obtain candidates where
    "modalSession (jsString cellDisplayValue) candidates fn modalOpened events = Some v"
    by (simp add: resolveDropValue_def)
  from modalSession_accepts [OF this assms(2)] show ?thesis
    by (simp add: modalOpened_def)
qed

subsection \<open>The write of a drop\<close>

lemma dropHandler_writes:
  assumes "dropHandler config r zoneActive xVal yVal xEvents yEvents = UpdateProperties f updates"
  shows "\<not> yReadonly config \<Longrightarrow>
           \<exists>w. resolveDropValue yVal (yTransformFn r) (yReverseMap r) (propertyKey (yAxis config)) yEvents = Some w
              \<and> w \<noteq> JNull \<and> map_of updates (propertyKey (yAxis config)) = Some w"
    and "\<not> xReadonly config \<Longrightarrow> yReadonly config \<or> xAxis config \<noteq> propertyKey (yAxis config) \<Longrightarrow>
           \<exists>w. resolveDropValue xVal (xTransformFn r) (xReverseMap r) (xAxis config) xEvents = Some w
              \<and> w \<noteq> JNull \<and> map_of updates (xAxis config) = Some w"
  using assms
  by (auto simp: dropHandler_def Let_def setProperty_empty map_of_setProperty_same
      map_of_setProperty_other split: if_splits option.splits)

text \<open>
  C1. On an axis with an active transform, a resolution that yields a value (not null, the
  cancelled resolution) yields one whose transform has the string form of the target
  label, whatever the user does in the dialog; and the value that a drop writes for such
  an axis is a value so resolved: \<^verbatim>\<open>String(transform(value)) = String(label)\<close>.
\<close>

theorem drop_writes_validated_value:
  "(resolveDropValue cellDisplayValue (Some fn) reverseMap axisName events = Some v \<and> v \<noteq> JNull
      \<longrightarrow> jsString (applyTransform v (Some fn)) = jsString cellDisplayValue)
   \<and> (dropHandler config r zoneActive xVal yVal xEvents yEvents = UpdateProperties f updates
        \<and> \<not> yReadonly config \<and> yTransformFn r = Some fn
      \<longrightarrow> (\<exists>w. map_of updates (propertyKey (yAxis config)) = Some w
              \<and> jsString (applyTransform w (Some fn)) = jsString yVal))
   \<and> (dropHandler config r zoneActive xVal yVal xEvents yEvents = UpdateProperties f updates
        \<and> \<not> xReadonly config \<and> xTransformFn r = Some fn
        \<and> (yReadonly config \<or> xAxis config \<noteq> propertyKey (yAxis config))
      \<longrightarrow> (\<exists>w. map_of updates (xAxis config) = Some w
              \<and> jsString (applyTransform w (Some fn)) = jsString xVal))"
proof (intro conjI impI)
  assume "resolveDropValue cellDisplayValue (Some fn) reverseMap axisName events = Some v \<and> v \<noteq> JNull"
  then show "jsString (applyTransform v (Some fn)) = jsString cellDisplayValue"
    using resolveDropValue_accepts by blast
next
  assume a: "dropHandler config r zoneActive xVal yVal xEvents yEvents = UpdateProperties f updates
        \<and> \<not> yReadonly config \<and> yTransformFn r = Some fn"
  then obtain w where w:
    "resolveDropValue yVal (Some fn) (yReverseMap r) (propertyKey (yAxis config)) yEvents = Some w"
    "w \<noteq> JNull" "map_of updates (propertyKey (yAxis config)) = Some w"
    using dropHandler_writes(1) [of config r zoneActive xVal yVal xEvents yEvents f updates] by auto
  from resolveDropValue_accepts [OF w(1,2)] w(3)
  show "\<exists>w. map_of updates (propertyKey (yAxis config)) = Some w
              \<and> jsString (applyTransform w (Some fn)) = jsString yVal"
    by blast
next
  assume a: "dropHandler config r zoneActive xVal yVal xEvents yEvents = UpdateProperties f updates
        \<and> \<not> xReadonly config \<and> xTransformFn r = Some fn
        \<and> (yReadonly config \<or> xAxis config \<noteq> propertyKey (yAxis config))"
  then obtain w where w:
    "resolveDropValue xVal (Some fn) (xReverseMap r) (xAxis config) xEvents = Some w"
    "w \<noteq> JNull" "map_of updates (xAxis config) = Some w"
    using dropHandler_writes(2) [of config r zoneActive xVal yVal xEvents yEvents f updates] by auto
  from resolveDropValue_accepts [OF w(1,2)] w(3)
  show "\<exists>w. map_of updates (xAxis config) = Some w
              \<and> jsString (applyTransform w (Some fn)) = jsString xVal"
    by blast
qed

theorem drop_writes_validated_value_witness:
  "resolveDropValue (JNum 10) (Some floorToTen) (yReverseMap exampleRenderer) ''Score''
      [InputText ''23'', ConfirmClick, InputText '' 13 '', EnterKey] = Some (JNum 13)
   \<and> JNum 13 \<noteq> JNull
   \<and> jsString (applyTransform (JNum 13) (Some floorToTen)) = jsString (JNum 10)"
proof -
  have h1: "resolveDropValue (JNum 10) (Some floorToTen) (yReverseMap exampleRenderer) ''Score''
      [InputText ''23'', ConfirmClick, InputText '' 13 '', EnterKey] = Some (JNum 13)"
    by code_simp
  have h2: "JNum 13 \<noteq> JNull" by simp
  from drop_writes_validated_value [THEN conjunct1, of "JNum 10" floorToTen
      "yReverseMap exampleRenderer" "''Score''"
      "[InputText ''23'', ConfirmClick, InputText '' 13 '', EnterKey]" "JNum 13"] h1 h2
  show ?thesis by blast
qed

text \<open>
  C2. When the handler calls \<^verbatim>\<open>updateProperties\<close>, every axis that is not readonly has
  been resolved to a value that is not null, the updates hold the resolved value of the Y
  axis under its property, and a readonly axis contributes no key to the updates. When the
  resolution of an axis that is not readonly is cancelled, there is no call: the handler
  has returned, or still waits for the dialog of the X axis.
\<close>

theorem drop_all_or_nothing:
  "(dropHandler config r zoneActive xVal yVal xEvents yEvents = UpdateProperties f updates \<longrightarrow>
      (\<not> xReadonly config \<longrightarrow>
         (\<exists>v. resolveDropValue xVal (xTransformFn r) (xReverseMap r) (xAxis config) xEvents = Some v
              \<and> v \<noteq> JNull
              \<and> (yReadonly config \<or> xAxis config \<noteq> propertyKey (yAxis config)
                   \<longrightarrow> map_of updates (xAxis config) = Some v)))
    \<and> (\<not> yReadonly config \<longrightarrow>
         (\<exists>v. resolveDropValue yVal (yTransformFn r) (yReverseMap r) (propertyKey (yAxis config)) yEvents = Some v
              \<and> v \<noteq> JNull \<and> map_of updates (propertyKey (yAxis config)) = Some v))
    \<and> (xReadonly config \<longrightarrow> fst ` set updates \<subseteq> {propertyKey (yAxis config)})
    \<and> (yReadonly config \<longrightarrow> fst ` set updates \<subseteq> {xAxis config}))
   \<and> ((\<not> xReadonly config
         \<and> resolveDropValue xVal (xTransformFn r) (xReverseMap r) (xAxis config) xEvents = Some JNull)
       \<or> (\<not> yReadonly config
         \<and> resolveDropValue yVal (yTransformFn r) (yReverseMap r) (propertyKey (yAxis config)) yEvents = Some JNull)
      \<longrightarrow> dropHandler config r zoneActive xVal yVal xEvents yEvents \<in> {NoWrite, Suspended})"
  by (auto simp: dropHandler_def Let_def setProperty_empty map_of_setProperty_same
      map_of_setProperty_other split: if_splits option.splits)

theorem drop_all_or_nothing_witness:
  "\<not> yReadonly exampleConfig
   \<and> resolveDropValue (JNum 10) (yTransformFn exampleRenderer) (yReverseMap exampleRenderer)
        (propertyKey (yAxis exampleConfig)) [InputText ''23'', CancelClick] = Some JNull
   \<and> dropHandler exampleConfig exampleRenderer True (JStr ''Done'') (JNum 10) []
        [InputText ''23'', CancelClick] \<in> {NoWrite, Suspended}
   \<and> dropHandler exampleConfig exampleRenderer True (JStr ''Done'') (JNum 10) []
        [InputText ''13'', ConfirmClick]
       = UpdateProperties exampleFile [(''Status'', JStr ''Done''), (''Score'', JNum 13)]
   \<and> (\<exists>v. resolveDropValue (JNum 10) (yTransformFn exampleRenderer) (yReverseMap exampleRenderer)
            (propertyKey (yAxis exampleConfig)) [InputText ''13'', ConfirmClick] = Some v
          \<and> v \<noteq> JNull
          \<and> map_of [(''Status'', JStr ''Done''), (''Score'', JNum 13)]
                (propertyKey (yAxis exampleConfig)) = Some v)"
proof -
  have h1: "\<not> yReadonly exampleConfig" by (simp add: exampleConfig_def)
  have h2: "resolveDropValue (JNum 10) (yTransformFn exampleRenderer) (yReverseMap exampleRenderer)
        (propertyKey (yAxis exampleConfig)) [InputText ''23'', CancelClick] = Some JNull"
    by code_simp
  have h3: "dropHandler exampleConfig exampleRenderer True (JStr ''Done'') (JNum 10) []
        [InputText ''13'', ConfirmClick]
       = UpdateProperties exampleFile [(''Status'', JStr ''Done''), (''Score'', JNum 13)]"
    by code_simp
  note t1 = drop_all_or_nothing [of exampleConfig exampleRenderer True "JStr ''Done''" "JNum 10"
      "[]" "[InputText ''23'', CancelClick]"]
  note t2 = drop_all_or_nothing [of exampleConfig exampleRenderer True "JStr ''Done''" "JNum 10"
      "[]" "[InputText ''13'', ConfirmClick]" exampleFile
      "[(''Status'', JStr ''Done''), (''Score'', JNum 13)]"]
  from t1 h1 h2 have c1: "dropHandler exampleConfig exampleRenderer True (JStr ''Done'') (JNum 10) []
        [InputText ''23'', CancelClick] \<in> {NoWrite, Suspended}"
    by blast
  from t2 h1 h3 have c2: "\<exists>v. resolveDropValue (JNum 10) (yTransformFn exampleRenderer)
            (yReverseMap exampleRenderer)
            (propertyKey (yAxis exampleConfig)) [InputText ''13'', ConfirmClick] = Some v
          \<and> v \<noteq> JNull
          \<and> map_of [(''Status'', JStr ''Done''), (''Score'', JNum 13)]
                (propertyKey (yAxis exampleConfig)) = Some v"
    by blast
  from h1 h2 h3 c1 c2 show ?thesis by blast
qed

subsection \<open>Range expansion\<close>





text \<open>
  The range expression has no sign in its step: a text with a negative step is not a range,
  and is read as a list.
\<close>

lemma negative_step_is_no_range:
  "valueList (parseAxisValues ''[0..10, Step -5]'') = [''[0..10'', ''Step -5]'']"
  by code_simp



subsection \<open>The collected values\<close>

lemma set_setAdd: "set (setAdd s v) = insert v (set s)"
  by (auto simp: setAdd_def)

lemma collectValue_sets:
  "set (fst (collectValue tf acc v)) = insert v (set (fst acc))"
  "set (snd (collectValue tf acc v)) = insert (applyTransform v tf) (set (snd acc))"
  by (simp_all add: collectValue_def set_setAdd)

lemma foldl_collectValue_sets:
  "set (fst (foldl (collectValue tf) acc vs)) = set (fst acc) \<union> set vs
   \<and> set (snd (foldl (collectValue tf) acc vs)) = set (snd acc) \<union> (\<lambda>e. applyTransform e tf) ` set vs"
  by (induction vs arbitrary: acc) (auto simp: collectValue_sets)

lemma collectAxis_mono:
  "set (fst acc) \<subseteq> set (fst (collectAxis tf v acc)) \<and> set (snd acc) \<subseteq> set (snd (collectAxis tf v acc))"
  by (cases v) (auto simp: collectAxis_def collectValue_sets foldl_collectValue_sets)

lemma collectAxis_array:
  "set vs \<subseteq> set (fst (collectAxis tf (JArr vs) acc))
   \<and> (\<forall>e\<in>set vs. applyTransform e tf \<in> set (snd (collectAxis tf (JArr vs) acc)))"
  by (auto simp: collectAxis_def foldl_collectValue_sets)

lemma axisCovers_mono:
  "axisCovers p tf raws vals d \<Longrightarrow> set raws \<subseteq> set raws' \<Longrightarrow> set vals \<subseteq> set vals' \<Longrightarrow>
   axisCovers p tf raws' vals' d"
  unfolding axisCovers_def by blast

lemma axisCovers_collectAxis:
  "getPropertyValue (properties d) p = Inr v \<Longrightarrow>
   axisCovers p tf (fst (collectAxis tf v acc)) (snd (collectAxis tf v acc)) d"
  unfolding axisCovers_def using collectAxis_array by auto

lemma collectDocument_result:
  obtains xv yv where
    "getPropertyValue (properties doc) (xAxis config) = Inr xv"
    "getPropertyValue (properties doc) (propertyKey (yAxis config)) = Inr yv"
    "collectDocument config xT yT doc st =
       Inr (st\<lparr>xRawValues := (if xAxis config \<noteq> [] then fst (collectAxis xT xv (xRawValues st, xAxisValues st)) else xRawValues st),
              xAxisValues := (if xAxis config \<noteq> [] then snd (collectAxis xT xv (xRawValues st, xAxisValues st)) else xAxisValues st),
              yRawValues := (if truthyText (yAxis config) then fst (collectAxis yT yv (yRawValues st, yAxisValues st)) else yRawValues st),
              yAxisValues := (if truthyText (yAxis config) then snd (collectAxis yT yv (yRawValues st, yAxisValues st)) else yAxisValues st)\<rparr>)"
proof -
  obtain xv where xv: "getPropertyValue (properties doc) (xAxis config) = Inr xv"
    using getPropertyValue_defined by blast
  obtain yv where yv: "getPropertyValue (properties doc) (propertyKey (yAxis config)) = Inr yv"
    using getPropertyValue_defined by blast
  show ?thesis
    by (rule that [OF xv yv]) (simp add: collectDocument_def xv yv Let_def)
qed

lemma collectDocument_keeps:
  assumes "collectDocument config xT yT doc st = Inr st'"
  shows "documents st' = documents st" and "errors st' = errors st"
    and "stateCovers config xT yT st' doc"
    and "stateCovers config xT yT st d \<Longrightarrow> stateCovers config xT yT st' d"
proof -
  obtain xv yv where
    xv: "getPropertyValue (properties doc) (xAxis config) = Inr xv" and
    yv: "getPropertyValue (properties doc) (propertyKey (yAxis config)) = Inr yv" and
    r: "collectDocument config xT yT doc st =
       Inr (st\<lparr>xRawValues := (if xAxis config \<noteq> [] then fst (collectAxis xT xv (xRawValues st, xAxisValues st)) else xRawValues st),
              xAxisValues := (if xAxis config \<noteq> [] then snd (collectAxis xT xv (xRawValues st, xAxisValues st)) else xAxisValues st),
              yRawValues := (if truthyText (yAxis config) then fst (collectAxis yT yv (yRawValues st, yAxisValues st)) else yRawValues st),
              yAxisValues := (if truthyText (yAxis config) then snd (collectAxis yT yv (yRawValues st, yAxisValues st)) else yAxisValues st)\<rparr>)"
    by (rule collectDocument_result)
  from r assms have st': "st' = st\<lparr>xRawValues := (if xAxis config \<noteq> [] then fst (collectAxis xT xv (xRawValues st, xAxisValues st)) else xRawValues st),
              xAxisValues := (if xAxis config \<noteq> [] then snd (collectAxis xT xv (xRawValues st, xAxisValues st)) else xAxisValues st),
              yRawValues := (if truthyText (yAxis config) then fst (collectAxis yT yv (yRawValues st, yAxisValues st)) else yRawValues st),
              yAxisValues := (if truthyText (yAxis config) then snd (collectAxis yT yv (yRawValues st, yAxisValues st)) else yAxisValues st)\<rparr>"
    by simp
  show "documents st' = documents st" by (simp add: st')
  show "errors st' = errors st" by (simp add: st')
  show "stateCovers config xT yT st' doc"
    unfolding stateCovers_def st'
    using axisCovers_collectAxis [OF xv] axisCovers_collectAxis [OF yv] by simp
  assume c: "stateCovers config xT yT st d"
  show "stateCovers config xT yT st' d"
    unfolding stateCovers_def
  proof (intro conjI impI)
    assume x: "xAxis config \<noteq> []"
    with c have "axisCovers (xAxis config) xT (xRawValues st) (xAxisValues st) d"
      by (simp add: stateCovers_def)
    from axisCovers_mono [OF this] collectAxis_mono [of "(xRawValues st, xAxisValues st)" xT xv]
    show "axisCovers (xAxis config) xT (xRawValues st') (xAxisValues st') d"
      using x by (simp add: st')
  next
    assume y: "truthyText (yAxis config)"
    with c have "axisCovers (propertyKey (yAxis config)) yT (yRawValues st) (yAxisValues st) d"
      by (simp add: stateCovers_def)
    from axisCovers_mono [OF this] collectAxis_mono [of "(yRawValues st, yAxisValues st)" yT yv]
    show "axisCovers (propertyKey (yAxis config)) yT (yRawValues st') (yAxisValues st') d"
      using y by (simp add: st')
  qed
qed

lemma collectDocument_defined: "\<exists>st'. collectDocument config xT yT doc st = Inr st'"
  using collectDocument_result [of doc config xT yT st] by metis

subsection \<open>The passes of the query\<close>

lemma evaluateFilter_defined: "\<exists>b. evaluateFilter doc flt = Inr b"
proof (cases "searchFrom matchContainsTail flt")
  case (Some m)
  obtain pth val where m: "m = (pth, val)" by (cases m)
  obtain v where "getPropertyValue (properties doc) pth = Inr v"
    using getPropertyValue_defined by blast
  with Some m show ?thesis
    by (cases v) (simp_all add: evaluateFilter_def)
next
  case None
  show ?thesis
  proof (cases "searchFrom matchEqualsTail flt")
    case (Some m)
    obtain pth operator val where m: "m = (pth, operator, val)" by (cases m)
    obtain v where "getPropertyValue (properties doc) pth = Inr v"
      using getPropertyValue_defined by blast
    with None Some m show ?thesis
      by (auto simp: evaluateFilter_def Let_def)
  next
    case n: None
    with None show ?thesis by (auto simp: evaluateFilter_def)
  qed
qed

lemma processFiles_invariant:
  assumes "\<forall>d\<in>set (documents st). stateCovers config xT yT st d"
  shows "\<exists>st'. processFiles a config xT yT st fs = Inr st' \<and> errors st' = errors st
          \<and> (\<forall>d\<in>set (documents st'). stateCovers config xT yT st' d)"
  using assms
proof (induction fs arbitrary: st)
  case Nil
  then show ?case by simp
next
  case (Cons f fs)
  show ?case
  proof (cases "getDocumentData a f")
    case None
    with Cons.IH [OF Cons.prems] show ?thesis by simp
  next
    case (Some docData)
    obtain keep where keep: "(if truthyText (whereExpr config)
                 then evaluateFilter docData (configText (whereExpr config))
                 else Inr True) = Inr keep"
      using evaluateFilter_defined by (cases "truthyText (whereExpr config)") auto
    show ?thesis
    proof (cases keep)
      case False
      with Cons.IH [OF Cons.prems] Some keep show ?thesis by simp
    next
      case True
      let ?st0 = "st\<lparr>documents := documents st @ [docData]\<rparr>"
      obtain st1 where st1: "collectDocument config xT yT docData ?st0 = Inr st1"
        using collectDocument_defined by blast
      have c0: "\<forall>d\<in>set (documents st). stateCovers config xT yT ?st0 d"
        using Cons.prems by (simp add: stateCovers_def)
      have "\<forall>d\<in>set (documents st1). stateCovers config xT yT st1 d"
      proof
        fix d assume "d \<in> set (documents st1)"
        then have "d \<in> set (documents st) \<or> d = docData"
          using collectDocument_keeps(1) [OF st1] by auto
        then show "stateCovers config xT yT st1 d"
          using collectDocument_keeps(3) [OF st1] collectDocument_keeps(4) [OF st1] c0 by blast
      qed
      from Cons.IH [OF this] obtain st' where
        "processFiles a config xT yT st1 fs = Inr st'" "errors st' = errors st1"
        "\<forall>d\<in>set (documents st'). stateCovers config xT yT st' d"
        by blast
      moreover have "errors st1 = errors st"
        using collectDocument_keeps(2) [OF st1] by simp
      ultimately show ?thesis
        using Some keep True st1 by simp
    qed
  qed
qed

lemma recollect_invariant:
  "\<exists>st'. recollect config xT yT st docs = Inr st' \<and> errors st' = errors st
        \<and> documents st' = documents st
        \<and> (\<forall>d\<in>set docs. stateCovers config xT yT st' d)
        \<and> (\<forall>d. stateCovers config xT yT st d \<longrightarrow> stateCovers config xT yT st' d)"
proof (induction docs arbitrary: st)
  case Nil
  show ?case by simp
next
  case (Cons doc docs)
  obtain st1 where st1: "collectDocument config xT yT doc st = Inr st1"
    using collectDocument_defined by blast
  from Cons.IH [of st1] obtain st' where st':
    "recollect config xT yT st1 docs = Inr st'" "errors st' = errors st1"
    "documents st' = documents st1"
    "\<forall>d\<in>set docs. stateCovers config xT yT st' d"
    "\<forall>d. stateCovers config xT yT st1 d \<longrightarrow> stateCovers config xT yT st' d"
    by blast
  have "recollect config xT yT st (doc # docs) = Inr st'"
    using st1 st'(1) by simp
  moreover have "errors st' = errors st" "documents st' = documents st"
    using st'(2,3) collectDocument_keeps(1,2) [OF st1] by simp_all
  moreover have "\<forall>d\<in>set (doc # docs). stateCovers config xT yT st' d"
    using st'(4,5) collectDocument_keeps(3) [OF st1] by auto
  moreover have "\<forall>d. stateCovers config xT yT st d \<longrightarrow> stateCovers config xT yT st' d"
    using st'(5) collectDocument_keeps(4) [OF st1] by blast
  ultimately show ?case by blast
qed

lemma perDocumentStage_defined:
  "\<exists>st1. perDocumentStage rt a config = Inr st1 \<and> errors st1 = []
     \<and> (\<forall>d\<in>set (documents st1).
           stateCovers config (compiledTransform rt (xTransform config))
             (compiledTransform rt (yTransform config)) st1 d)"
proof -
  have "\<forall>d\<in>set (documents initialState).
      stateCovers config (compiledTransform rt (xTransform config))
        (compiledTransform rt (yTransform config)) initialState d"
    by (simp add: initialState_def)
  from processFiles_invariant [OF this, of a "getSourceFiles a (source config)"]
  show ?thesis
    by (simp add: perDocumentStage_def initialState_def)
qed

lemma applyFilter_covers:
  assumes "\<forall>d\<in>set (documents st). stateCovers config xT yT st d"
  shows "\<forall>d\<in>set (documents (applyFilter rt config xT yT st)).
           stateCovers config xT yT (applyFilter rt config xT yT st) d"
proof (cases "truthyText (filterExpr config)")
  case False
  with assms show ?thesis by (simp add: applyFilter_def)
next
  case True
  show ?thesis
  proof (cases "callFilter rt (configText (filterExpr config)) (documents st)")
    case (Inl e)
    obtain msg where "e = JsError msg" by (cases e)
    with Inl True assms show ?thesis
      by (simp add: applyFilter_def stateCovers_def)
  next
    case (Inr res)
    show ?thesis
    proof (cases res)
      case None
      with Inr True assms show ?thesis by (simp add: applyFilter_def)
    next
      case (Some filtered)
      let ?st0 = "st\<lparr>documents := filtered, xAxisValues := [], yAxisValues := [],
                      xRawValues := [], yRawValues := []\<rparr>"
      from recollect_invariant [of config xT yT ?st0 filtered] obtain st' where
        "recollect config xT yT ?st0 filtered = Inr st'" "documents st' = documents ?st0"
        "\<forall>d\<in>set filtered. stateCovers config xT yT st' d"
        by blast
      with Inr True Some show ?thesis by (simp add: applyFilter_def)
    qed
  qed
qed

lemma set_insertBy: "set (insertBy cmp x ys) = insert x (set ys)"
  by (induction ys) auto

lemma set_stableSort_aux: "set (foldl (\<lambda>acc x. insertBy cmp x acc) acc xs) = set acc \<union> set xs"
  by (induction xs arbitrary: acc) (auto simp: set_insertBy)

lemma set_stableSort: "set (stableSort cmp xs) = set xs"
  by (simp add: stableSort_def set_stableSort_aux)

lemma readKeys_defined: "\<exists>keyed. readKeys p docs = Inr keyed \<and> map fst keyed = docs"
proof (induction docs)
  case Nil
  show ?case by simp
next
  case (Cons d docs)
  obtain v where "getPropertyValue (properties d) p = Inr v"
    using getPropertyValue_defined by blast
  with Cons show ?case by auto
qed

lemma sortDocuments_defined:
  "\<exists>sortedDocs. sortDocuments lt docs sp = Inr sortedDocs \<and> set sortedDocs = set docs"
proof -
  obtain keyed where k: "readKeys (sortBy sp) docs = Inr keyed" "map fst keyed = docs"
    using readKeys_defined by blast
  have "set (map fst (stableSort (\<lambda>a b. compareValues lt (sortOrder sp) (snd a) (snd b)) keyed))
      = set docs"
    using k(2) by (simp add: set_stableSort del: map_map) (metis set_map)
  with k(1) show ?thesis by (simp add: sortDocuments_def)
qed

subsection \<open>A whole-set filter that throws\<close>







lemma execute_covers:
  "\<exists>st2. xAxisRawValues (execute rt a config) = Some (xRawValues st2)
       \<and> yAxisRawValues (execute rt a config) = Some (yRawValues st2)
       \<and> resultXAxisValues (execute rt a config) = xAxisValues st2
       \<and> resultYAxisValues (execute rt a config) = yAxisValues st2
       \<and> (\<forall>d\<in>set (resultDocuments (execute rt a config)).
            stateCovers config (compiledTransform rt (xTransform config))
              (compiledTransform rt (yTransform config)) st2 d)"
proof -
  let ?xT = "compiledTransform rt (xTransform config)"
  let ?yT = "compiledTransform rt (yTransform config)"
  obtain st1 where st1: "perDocumentStage rt a config = Inr st1"
    "\<forall>d\<in>set (documents st1). stateCovers config ?xT ?yT st1 d"
    using perDocumentStage_defined by blast
  define st2 where "st2 = applyFilter rt config ?xT ?yT st1"
  have c: "\<forall>d\<in>set (documents st2). stateCovers config ?xT ?yT st2 d"
    unfolding st2_def by (rule applyFilter_covers [OF st1(2)])
  show ?thesis
  proof (cases "sortSpec config")
    case None
    with c show ?thesis
      by (intro exI [of _ st2]) (simp add: execute_def st1(1) st2_def Let_def)
  next
    case (Some sp)
    obtain sortedDocs where s: "sortDocuments (jsLess rt) (documents st2) sp = Inr sortedDocs"
      "set sortedDocs = set (documents st2)"
      using sortDocuments_defined by blast
    with Some c show ?thesis
      by (intro exI [of _ st2]) (simp add: execute_def st1(1) st2_def [symmetric] Let_def)
  qed
qed

lemma axisMatches_element:
  "e \<in> set vs \<Longrightarrow> axisMatches tf (JArr vs) (applyTransform e tf)"
  by (auto simp: axisMatches_def list_ex_iff)

subsection \<open>Multi-valued properties\<close>

lemma getPropertyValueAt_truthy:
  "truthyText p \<Longrightarrow> getPropertyValueAt props p = getPropertyValue props (propertyKey p)"
  by (cases p) (simp_all add: getPropertyValueAt_def truthyText_def propertyKey_def)

lemma cellMatches_x:
  assumes "getPropertyValue (properties d) (xAxis config) = Inr (JArr vs)" and "e \<in> set vs"
    and "getPropertyValueAt (properties d) (yAxis config) = Inr rawY"
    and "axisMatches (yTransformFn r) rawY yVal"
  shows "cellMatches config r (applyTransform e (xTransformFn r)) yVal d = Inr True"
  using assms by (simp add: cellMatches_def axisMatches_element)

lemma cellMatches_y:
  assumes "truthyText (yAxis config)"
    and "getPropertyValue (properties d) (propertyKey (yAxis config)) = Inr (JArr vs)" and "e \<in> set vs"
    and "getPropertyValue (properties d) (xAxis config) = Inr rawX"
    and "axisMatches (xTransformFn r) rawX xVal"
  shows "cellMatches config r xVal (applyTransform e (yTransformFn r)) d = Inr True"
  using assms by (simp add: cellMatches_def axisMatches_element getPropertyValueAt_truthy)

lemma covered_x:
  assumes "d \<in> set (resultDocuments (execute rt a config))" and "xAxis config \<noteq> []"
    and "getPropertyValue (properties d) (xAxis config) = Inr (JArr vs)"
  shows "\<exists>raws. xAxisRawValues (execute rt a config) = Some raws \<and> set vs \<subseteq> set raws
      \<and> (\<forall>e\<in>set vs. applyTransform e (compiledTransform rt (xTransform config))
            \<in> set (resultXAxisValues (execute rt a config)))"
proof -
  obtain st2 where st2: "xAxisRawValues (execute rt a config) = Some (xRawValues st2)"
    "resultXAxisValues (execute rt a config) = xAxisValues st2"
    "\<forall>d\<in>set (resultDocuments (execute rt a config)).
        stateCovers config (compiledTransform rt (xTransform config))
          (compiledTransform rt (yTransform config)) st2 d"
    using execute_covers [of rt a config] by blast
  from st2(3) assms(1,2) have "axisCovers (xAxis config) (compiledTransform rt (xTransform config))
      (xRawValues st2) (xAxisValues st2) d"
    by (simp add: stateCovers_def)
  with assms(3) st2(1,2) show ?thesis
    by (simp add: axisCovers_def)
qed

lemma covered_y:
  assumes "d \<in> set (resultDocuments (execute rt a config))" and "truthyText (yAxis config)"
    and "getPropertyValue (properties d) (propertyKey (yAxis config)) = Inr (JArr vs)"
  shows "\<exists>raws. yAxisRawValues (execute rt a config) = Some raws \<and> set vs \<subseteq> set raws
      \<and> (\<forall>e\<in>set vs. applyTransform e (compiledTransform rt (yTransform config))
            \<in> set (resultYAxisValues (execute rt a config)))"
proof -
  obtain st2 where st2: "yAxisRawValues (execute rt a config) = Some (yRawValues st2)"
    "resultYAxisValues (execute rt a config) = yAxisValues st2"
    "\<forall>d\<in>set (resultDocuments (execute rt a config)).
        stateCovers config (compiledTransform rt (xTransform config))
          (compiledTransform rt (yTransform config)) st2 d"
    using execute_covers [of rt a config] by blast
  from st2(3) assms(1,2) have "axisCovers (propertyKey (yAxis config))
      (compiledTransform rt (yTransform config)) (yRawValues st2) (yAxisValues st2) d"
    by (simp add: stateCovers_def)
  with assms(3) st2(1,2) show ?thesis
    by (simp add: axisCovers_def)
qed

text \<open>
  C7. For a document of the result whose property on a configured axis is the array of
  \<open>u\<close> and \<open>v\<close>: both are among the raw values of that axis, the labels of both are in
  the set of labels of that axis, and in the board the document is in the cell of each of
  the two labels, in every row (or column) that its other property matches.
\<close>

theorem multi_valued_axis_property:
  assumes "d \<in> set (resultDocuments (execute rt a config))"
  shows "(xAxis config \<noteq> [] \<and> getPropertyValue (properties d) (xAxis config) = Inr (JArr [u, v]) \<longrightarrow>
            (\<exists>raws. xAxisRawValues (execute rt a config) = Some raws \<and> u \<in> set raws \<and> v \<in> set raws)
          \<and> applyTransform u (compiledTransform rt (xTransform config))
               \<in> set (resultXAxisValues (execute rt a config))
          \<and> applyTransform v (compiledTransform rt (xTransform config))
               \<in> set (resultXAxisValues (execute rt a config))
          \<and> (\<forall>r yVal rawY.
                xTransformFn r = compiledTransform rt (xTransform config)
                \<and> getPropertyValueAt (properties d) (yAxis config) = Inr rawY
                \<and> axisMatches (yTransformFn r) rawY yVal
              \<longrightarrow> cellMatches config r (applyTransform u (xTransformFn r)) yVal d = Inr True
                \<and> cellMatches config r (applyTransform v (xTransformFn r)) yVal d = Inr True))
       \<and> (truthyText (yAxis config)
            \<and> getPropertyValue (properties d) (propertyKey (yAxis config)) = Inr (JArr [u, v]) \<longrightarrow>
            (\<exists>raws. yAxisRawValues (execute rt a config) = Some raws \<and> u \<in> set raws \<and> v \<in> set raws)
          \<and> applyTransform u (compiledTransform rt (yTransform config))
               \<in> set (resultYAxisValues (execute rt a config))
          \<and> applyTransform v (compiledTransform rt (yTransform config))
               \<in> set (resultYAxisValues (execute rt a config))
          \<and> (\<forall>r xVal rawX.
                yTransformFn r = compiledTransform rt (yTransform config)
                \<and> getPropertyValue (properties d) (xAxis config) = Inr rawX
                \<and> axisMatches (xTransformFn r) rawX xVal
              \<longrightarrow> cellMatches config r xVal (applyTransform u (yTransformFn r)) d = Inr True
                \<and> cellMatches config r xVal (applyTransform v (yTransformFn r)) d = Inr True))"
proof (intro conjI impI)
  assume x: "xAxis config \<noteq> [] \<and> getPropertyValue (properties d) (xAxis config) = Inr (JArr [u, v])"
  from covered_x [OF assms, of "[u, v]"] x
  show "\<exists>raws. xAxisRawValues (execute rt a config) = Some raws \<and> u \<in> set raws \<and> v \<in> set raws"
    and "applyTransform u (compiledTransform rt (xTransform config))
               \<in> set (resultXAxisValues (execute rt a config))"
    and "applyTransform v (compiledTransform rt (xTransform config))
               \<in> set (resultXAxisValues (execute rt a config))"
    by auto
  show "\<forall>r yVal rawY.
                xTransformFn r = compiledTransform rt (xTransform config)
                \<and> getPropertyValueAt (properties d) (yAxis config) = Inr rawY
                \<and> axisMatches (yTransformFn r) rawY yVal
              \<longrightarrow> cellMatches config r (applyTransform u (xTransformFn r)) yVal d = Inr True
                \<and> cellMatches config r (applyTransform v (xTransformFn r)) yVal d = Inr True"
  proof (intro allI impI)
    fix r :: renderer and yVal rawY
    assume h: "xTransformFn r = compiledTransform rt (xTransform config)
                \<and> getPropertyValueAt (properties d) (yAxis config) = Inr rawY
                \<and> axisMatches (yTransformFn r) rawY yVal"
    from x h cellMatches_x [of d config "[u, v]" u rawY r yVal]
      cellMatches_x [of d config "[u, v]" v rawY r yVal]
    show "cellMatches config r (applyTransform u (xTransformFn r)) yVal d = Inr True
                \<and> cellMatches config r (applyTransform v (xTransformFn r)) yVal d = Inr True"
      by simp
  qed
next
  assume y: "truthyText (yAxis config)
            \<and> getPropertyValue (properties d) (propertyKey (yAxis config)) = Inr (JArr [u, v])"
  from covered_y [OF assms, of "[u, v]"] y
  show "\<exists>raws. yAxisRawValues (execute rt a config) = Some raws \<and> u \<in> set raws \<and> v \<in> set raws"
    and "applyTransform u (compiledTransform rt (yTransform config))
               \<in> set (resultYAxisValues (execute rt a config))"
    and "applyTransform v (compiledTransform rt (yTransform config))
               \<in> set (resultYAxisValues (execute rt a config))"
    by auto
  show "\<forall>r xVal rawX.
                yTransformFn r = compiledTransform rt (yTransform config)
                \<and> getPropertyValue (properties d) (xAxis config) = Inr rawX
                \<and> axisMatches (xTransformFn r) rawX xVal
              \<longrightarrow> cellMatches config r xVal (applyTransform u (yTransformFn r)) d = Inr True
                \<and> cellMatches config r xVal (applyTransform v (yTransformFn r)) d = Inr True"
  proof (intro allI impI)
    fix r :: renderer and xVal rawX
    assume h: "yTransformFn r = compiledTransform rt (yTransform config)
                \<and> getPropertyValue (properties d) (xAxis config) = Inr rawX
                \<and> axisMatches (xTransformFn r) rawX xVal"
    from y h cellMatches_y [of config d "[u, v]" u rawX r xVal]
      cellMatches_y [of config d "[u, v]" v rawX r xVal]
    show "cellMatches config r xVal (applyTransform u (yTransformFn r)) d = Inr True
                \<and> cellMatches config r xVal (applyTransform v (yTransformFn r)) d = Inr True"
      by simp
  qed
qed

lemma scored_loaded:
  "(case getDocumentData scoredApp scoredFile of
      None \<Rightarrow> False
    | Some d \<Rightarrow>
        d \<in> set (resultDocuments (execute exampleRuntime scoredApp exampleConfig))
        \<and> getPropertyValue (properties d) (propertyKey (yAxis exampleConfig))
            = Inr (JArr [JNum 13, JNum 27])
        \<and> getPropertyValue (properties d) (xAxis exampleConfig) = Inr (JStr ''Open''))"
  by code_simp

lemma scored_labels:
  "truthyText (yAxis exampleConfig)"
  "applyTransform (JNum 13) (compiledTransform exampleRuntime (yTransform exampleConfig)) = JNum 10"
  "applyTransform (JNum 27) (compiledTransform exampleRuntime (yTransform exampleConfig)) = JNum 20"
  by code_simp+

theorem multi_valued_axis_property_witness:
  "\<exists>d. getDocumentData scoredApp scoredFile = Some d
      \<and> d \<in> set (resultDocuments (execute exampleRuntime scoredApp exampleConfig))
      \<and> getPropertyValue (properties d) (propertyKey (yAxis exampleConfig))
            = Inr (JArr [JNum 13, JNum 27])
      \<and> (\<exists>raws. yAxisRawValues (execute exampleRuntime scoredApp exampleConfig) = Some raws
            \<and> JNum 13 \<in> set raws \<and> JNum 27 \<in> set raws)
      \<and> JNum 10 \<in> set (resultYAxisValues (execute exampleRuntime scoredApp exampleConfig))
      \<and> JNum 20 \<in> set (resultYAxisValues (execute exampleRuntime scoredApp exampleConfig))"
proof -
  from scored_loaded obtain d where d: "getDocumentData scoredApp scoredFile = Some d"
    "d \<in> set (resultDocuments (execute exampleRuntime scoredApp exampleConfig))"
    "getPropertyValue (properties d) (propertyKey (yAxis exampleConfig))
            = Inr (JArr [JNum 13, JNum 27])"
    by (auto split: option.splits)
  from multi_valued_axis_property [OF d(2), of "JNum 13" "JNum 27"] d(3) scored_labels
  have "(\<exists>raws. yAxisRawValues (execute exampleRuntime scoredApp exampleConfig) = Some raws
            \<and> JNum 13 \<in> set raws \<and> JNum 27 \<in> set raws)
      \<and> JNum 10 \<in> set (resultYAxisValues (execute exampleRuntime scoredApp exampleConfig))
      \<and> JNum 20 \<in> set (resultYAxisValues (execute exampleRuntime scoredApp exampleConfig))"
    by simp
  with d show ?thesis by blast
qed


end
